theory Spec2Isabelle
  imports Complex_Main "HOL-Library.Char_ord" "HOL-Library.List_Lexorder"
begin

section \<open>Errors raised by the package\<close>

text \<open>
  Every \<^verbatim>\<open>raise\<close> of the two modules, and every exception of the interpreter that the
  modelled code can run into, is one constructor.
  \<^item> \<open>IndexError\<close>: \<^verbatim>\<open>IndexError("ancestor_sequence and derived sequence must be the same
    length.")\<close> in \<^verbatim>\<open>generate_binary_space\<close> (the specification's ValidationError), and
    an array index out of range;
  \<^item> \<open>NotDivergent\<close>: \<^verbatim>\<open>Exception("Wildtype and mutant must differ at all sites.")\<close>
    (the specification's DivergenceError);
  \<^item> \<open>SearchExhausted\<close>: \<^verbatim>\<open>Exception("Random search reached max iterations before
    finding satisfying sequences.")\<close> (the specification's SearchExhaustedError);
  \<^item> \<open>NoScoringSource\<close>: \<^verbatim>\<open>Exception("Not to give conf_list or Conformations object")\<close>;
  \<^item> \<open>InvalidPhenotypeType\<close>: \<^verbatim>\<open>Exception(str(phenotype_type) + " is not a valid
    phenotype type.")\<close>;
  \<^item> \<open>MissingField arg\<close>: \<^verbatim>\<open>Exception(arg + " not in json.")\<close>;
  \<^item> \<open>UnboundLocalError\<close>: a local variable read before any assignment (Python's
    UnboundLocalError, a subclass of NameError);
  \<^item> \<open>AttributeError\<close>: an attribute read before it was ever set, or a property without
    a setter being assigned;
  \<^item> \<open>ValueError\<close>: numpy operands whose shapes cannot be broadcast together, and the
    truth value of an array with more than one entry;
  \<^item> \<open>TypeError\<close>: a dtype string that numpy does not understand;
  \<^item> \<open>LibraryError\<close>: an exception raised inside a call into the gpmap package, of
    whatever class.
\<close>

datatype error =
    IndexError
  | NotDivergent
  | SearchExhausted
  | NoScoringSource
  | InvalidPhenotypeType
  | MissingField string
  | UnboundLocalError
  | AttributeError
  | ValueError
  | TypeError
  | LibraryError

text \<open>Sequencing of steps that may raise: the first error ends the computation.\<close>

definition and_then :: "error + 'a \<Rightarrow> ('a \<Rightarrow> error + 'b) \<Rightarrow> error + 'b" where
  "and_then r f = (case r of Inl e \<Rightarrow> Inl e | Inr x \<Rightarrow> f x)"

section \<open>utils.py: the binary sequence space\<close>

text \<open>
  Modelled from the spec: \<^verbatim>\<open>HammingDistance\<close> is imported from the latticeproteins package,
  which is not part of this repository. It is the number of sites at which two sequences of
  equal length differ; it is only ever called here on sequences of equal length.
\<close>

definition HammingDistance :: "string \<Rightarrow> string \<Rightarrow> nat" where
  "HammingDistance seq1 seq2 = length (filter (\<lambda>(a, b). a \<noteq> b) (zip seq1 seq2))"

text \<open>
  \<^verbatim>\<open>it.product(pool, repeat=n)\<close>: all tuples of length \<open>n\<close> over the pool, the rightmost
  position advancing fastest.
\<close>

fun product_repeat :: "'a list \<Rightarrow> nat \<Rightarrow> 'a list list" where
  "product_repeat pool 0 = [[]]"
| "product_repeat pool (Suc n) =
     concat (map (\<lambda>x. map ((#) x) (product_repeat pool n)) pool)"

text \<open>
  \<^verbatim>\<open>binaries = sorted(["".join(list(s)) for s in it.product('01', repeat=len(wildtype))])\<close>.
  Python compares strings lexicographically by code point, which is the order of
  \<open>string\<close> here.
\<close>

definition binaries :: "nat \<Rightarrow> string list" where
  "binaries n = sort (product_repeat ''01'' n)"

text \<open>
  The inner loop over \<^verbatim>\<open>range(len(wildtype))\<close>. Every \<open>b\<close> it is run on has the length
  of the wildtype, and the mutant has passed the length check, so no index is out of range.
\<close>

definition build_sequence :: "string \<Rightarrow> string \<Rightarrow> string \<Rightarrow> string" where
  "build_sequence wildtype mutant b =
     map (\<lambda>i. if b ! i = CHR ''0'' then wildtype ! i else mutant ! i) [0..<length wildtype]"

definition generate_binary_space :: "string \<Rightarrow> string \<Rightarrow> error + string list" where
  "generate_binary_space wildtype mutant =
     (if length wildtype \<noteq> length mutant then Inl IndexError
      else if HammingDistance wildtype mutant \<noteq> length wildtype then Inl NotDivergent
      else Inr (map (build_sequence wildtype mutant) (binaries (length wildtype))))"

text \<open>The specification's side of the enumeration: all binary strings of a given length.\<close>

definition bit_strings :: "nat \<Rightarrow> string set" where
  "bit_strings n = {b. length b = n \<and> set b \<subseteq> {CHR ''0'', CHR ''1''}}"

section \<open>utils.py: the random landscape search\<close>

text \<open>
  The two search functions share their text except for the oracle call and the comparison
  with the threshold, so the loop is modelled once, with the acceptance test \<open>ok\<close> as a
  parameter.

  \<^item> \<^verbatim>\<open>RandomSequence(length)\<close> (latticeproteins) is the random source. The model takes
    the successive draws as a function \<open>rnd\<close>: the draw made while the counter is \<open>k\<close> is
    \<open>rnd k\<close>.
  \<^item> \<^verbatim>\<open>counter\<close> and \<^verbatim>\<open>max_iter\<close> are Python integers; \<^verbatim>\<open>max_iter\<close> is
    whatever the caller passes, also a negative number.
  \<^item> \<^verbatim>\<open>HammingDistance(sequences[0], sequence) is length\<close> compares two integers by
    identity: \<open>py_is\<close> below.
  \<^item> \<^verbatim>\<open>"".join(sequence)\<close> turns the drawn list of residues into a string; in the model
    both are a \<open>string\<close>.
\<close>

text \<open>
  \<^verbatim>\<open>a is b\<close> for an integer \<open>a\<close> that has just been computed and another integer \<open>b\<close>.
  CPython keeps one object for every integer from \<open>-5\<close> to \<open>256\<close>, so up to \<open>256\<close> the two are
  the same object exactly when they are equal; a larger integer that has just been computed is
  an object of its own, and the test fails.
\<close>

definition py_is :: "nat \<Rightarrow> nat \<Rightarrow> bool" where
  "py_is a b \<longleftrightarrow> a = b \<and> a \<le> 256"

function search_loop ::
  "(string \<Rightarrow> bool) \<Rightarrow> nat \<Rightarrow> (nat \<Rightarrow> string) \<Rightarrow> int \<Rightarrow> string list \<Rightarrow> int
     \<Rightarrow> string list \<times> int" where
  "search_loop ok len rnd max_iter sequences counter =
     (if length sequences < 2 \<and> counter < max_iter then
        (let sequence = rnd (nat counter);
             sequences' =
               (if ok sequence then
                  (if length sequences > 0 then
                     (if py_is (HammingDistance (sequences ! 0) sequence) len
                      then sequences @ [sequence] else sequences)
                   else sequences @ [sequence])
                else sequences)
         in search_loop ok len rnd max_iter sequences' (counter + 1))
      else (sequences, counter))"
  by pat_completeness auto
termination
  by (relation "measure (\<lambda>(ok, len, rnd, max_iter, sequences, counter). nat (max_iter - counter))")
     auto

declare search_loop.simps [simp del]

text \<open>
  The fold oracle: \<^verbatim>\<open>Conformations.Length()\<close> and
  \<^verbatim>\<open>Conformations.FoldSequence(sequence, temperature)\<close>, whose output is the tuple
  (native energy, native conformation, partition sum, folded).
\<close>

type_synonym fold_output = "real \<times> string \<times> real \<times> bool"

record Conformations =
  Length :: nat
  FoldSequence :: "string \<Rightarrow> real \<Rightarrow> fold_output"

definition search_conformation_space ::
  "(nat \<Rightarrow> string) \<Rightarrow> Conformations \<Rightarrow> real \<Rightarrow> real \<Rightarrow> int \<Rightarrow> error + string list" where
  "search_conformation_space rnd Conformations temperature threshold max_iter =
     (let len = Length Conformations;
          (sequences, counter) =
             search_loop (\<lambda>sequence. fst (FoldSequence Conformations sequence temperature) < threshold)
               len rnd max_iter [] 0
      in if counter = max_iter then Inl SearchExhausted else Inr sequences)"

text \<open>The fitness oracle: \<^verbatim>\<open>Fitness.Length()\<close> and \<^verbatim>\<open>Fitness.Fitness(sequence)\<close>.\<close>

record Fitness =
  Length_f :: nat
  Fitness_f :: "string \<Rightarrow> real"

definition search_fitness_landscape ::
  "(nat \<Rightarrow> string) \<Rightarrow> Fitness \<Rightarrow> real \<Rightarrow> int \<Rightarrow> error + string list" where
  "search_fitness_landscape rnd Fitness threshold max_iter =
     (let len = Length_f Fitness;
          (sequences, counter) =
             search_loop (\<lambda>sequence. Fitness_f Fitness sequence > threshold)
               len rnd max_iter [] 0
      in if counter = max_iter then Inl SearchExhausted else Inr sequences)"

section \<open>gpm.py: numpy arrays\<close>

text \<open>
  Floats are modelled as real numbers: \<^verbatim>\<open>np.exp\<close> and \<^verbatim>\<open>np.log\<close> are \<open>exp\<close> and \<open>ln\<close>,
  comparisons of energies are comparisons of reals, and rounding, overflow and NaN are outside
  the model. A temperature of zero is outside the model as well (Python divides by it).

  An array of floats or of booleans is the list of its entries. \<^verbatim>\<open>a[i] = v\<close> with \<open>i\<close> taken
  from \<^verbatim>\<open>range(self.n)\<close> raises IndexError when the array has no entry \<open>i\<close>.
\<close>

definition setitem :: "'a list \<Rightarrow> nat \<Rightarrow> 'a \<Rightarrow> error + 'a list" where
  "setitem xs i v = (if i < length xs then Inr (xs[i := v]) else Inl IndexError)"

text \<open>
  An array of strings has a fixed width, given by its dtype (\<^verbatim>\<open>"U" + str(self.length - 1)\<close> in
  \<^verbatim>\<open>fold\<close>): numpy cuts a longer string down to the width when it is stored.
\<close>

record str_array =
  width :: nat
  items :: "string list"

definition setitem_str :: "str_array \<Rightarrow> nat \<Rightarrow> string \<Rightarrow> error + str_array" where
  "setitem_str a i s =
     (if i < length (items a) then Inr (a\<lparr>items := (items a)[i := take (width a) s]\<rparr>)
      else Inl IndexError)"

text \<open>
  \<^verbatim>\<open>np.empty(k)\<close> allocates \<open>k\<close> entries and does not initialise them: entry \<open>i\<close> holds
  whatever the memory held, \<open>junk i\<close>.
\<close>

definition np_empty :: "nat \<Rightarrow> (nat \<Rightarrow> 'a) \<Rightarrow> 'a list" where
  "np_empty k junk = map junk [0..<k]"

record junk =
  junk_nativeEs :: "nat \<Rightarrow> real"
  junk_confs :: "nat \<Rightarrow> string"
  junk_partition_sum :: "nat \<Rightarrow> real"
  junk_folded :: "nat \<Rightarrow> bool"

text \<open>
  An arithmetic operation on two one-dimensional arrays works entry by entry; an array with
  one entry is stretched to the length of the other, and any other pair of different lengths
  raises ValueError.
\<close>

definition broadcast :: "('a \<Rightarrow> 'b \<Rightarrow> 'c) \<Rightarrow> 'a list \<Rightarrow> 'b list \<Rightarrow> error + 'c list" where
  "broadcast f xs ys =
     (if length xs = length ys then Inr (map2 f xs ys)
      else if length xs = 1 then Inr (map (f (hd xs)) ys)
      else if length ys = 1 then Inr (map (\<lambda>x. f x (hd ys)) xs)
      else Inl ValueError)"

text \<open>Reading an attribute that may not have been set yet.\<close>

definition attr :: "'a option \<Rightarrow> error + 'a" where
  "attr a = (case a of None \<Rightarrow> Inl AttributeError | Some x \<Rightarrow> Inr x)"

section \<open>gpm.py: the lattice genotype-phenotype map\<close>

text \<open>
  The object, with the attributes that the class itself sets. The attributes whose Python
  name starts with an underscore have the prefix \<open>p_\<close>; \<^verbatim>\<open>partition_confs_\<close> (set by
  \<^verbatim>\<open>set_partition_confs\<close>) is \<open>partition_confs_set\<close>. The four arrays, \<^verbatim>\<open>partition_confs\<close>
  and \<^verbatim>\<open>partition_confs_\<close> do not exist before the first scoring pass: \<open>None\<close>.
  The type of the mutation dictionary \<open>'mut\<close> and of the interaction-energy table \<open>'tbl\<close>
  are left open: the class only hands them on.

  Left out of the record: the attribute \<^verbatim>\<open>binary\<close>, a \<^verbatim>\<open>BinaryMap\<close> of the gpmap package
  that \<^verbatim>\<open>_build\<close> makes, and \<^verbatim>\<open>Conformations\<close>, the oracle that \<^verbatim>\<open>fold\<close> keeps; nothing
  modelled on the record reads them, and the constructor is taken to get its binary map.
  (Where a map is read back from a file, the call of \<^verbatim>\<open>BinaryMap\<close> is modelled: see
  \<open>build_object\<close> below.)
\<close>

record ('mut, 'tbl) lattice_gpm =
  wildtype :: string
  mutations :: 'mut
  interaction_energies :: 'tbl
  temperature :: real
  target_conf :: "string option"
  p_phenotype_type :: string
  genotypes :: "string list"
  log_transform :: bool
  n_replicates :: "unit option"
  stdeviations :: "unit option"
  p_nativeEs :: "real list option"
  p_confs :: "str_array option"
  p_partition_sum :: "real list option"
  p_folded :: "bool list option"
  partition_confs :: "string list option"
  partition_confs_set :: "string list option"

text \<open>
  Modelled from the spec: \<^verbatim>\<open>self.n\<close> and \<^verbatim>\<open>self.length\<close> are properties of the base class
  \<^verbatim>\<open>GenotypePhenotypeMap\<close> of the gpmap package, which is not part of this repository: the
  number of genotypes (the records are "indexed identically to the genotype set") and the
  common length of the sequences ("every genotype has length L").
\<close>

definition gpm_n :: "('mut, 'tbl) lattice_gpm \<Rightarrow> nat" where
  "gpm_n m = length (genotypes m)"

definition gpm_length :: "('mut, 'tbl) lattice_gpm \<Rightarrow> nat" where
  "gpm_length m = length (wildtype m)"

text \<open>The properties \<^verbatim>\<open>confs\<close>, \<^verbatim>\<open>folded\<close>, \<^verbatim>\<open>partition_sum\<close> and \<^verbatim>\<open>nativeEs\<close>.\<close>

definition confs :: "('mut, 'tbl) lattice_gpm \<Rightarrow> error + str_array" where
  "confs m = attr (p_confs m)"

definition folded :: "('mut, 'tbl) lattice_gpm \<Rightarrow> error + bool list" where
  "folded m = attr (p_folded m)"

definition partition_sum :: "('mut, 'tbl) lattice_gpm \<Rightarrow> error + real list" where
  "partition_sum m = attr (p_partition_sum m)"

definition nativeEs :: "('mut, 'tbl) lattice_gpm \<Rightarrow> error + real list" where
  "nativeEs m = attr (p_nativeEs m)"

text \<open>The setter of \<^verbatim>\<open>phenotype_type\<close> and the list of types it accepts.\<close>

definition types :: "string list" where
  "types = [''nativeEs'', ''stabilities'', ''fracfolded'']"

text \<open>
  \<^verbatim>\<open>__init__\<close>. Its first two arguments stand for what the module imports:
  the table \<^verbatim>\<open>miyazawa_jernigan\<close> of the latticeproteins package and the function
  \<^verbatim>\<open>mutations_to_genotypes\<close> of the gpmap package. The others are the arguments of the
  source, in its order. The body assigns \<^verbatim>\<open>self.interaction_energies = miyazawa_jernigan\<close>.
\<close>

definition init_gpm ::
  "'tbl \<Rightarrow> (string \<Rightarrow> 'mut \<Rightarrow> string list) \<Rightarrow>
   string \<Rightarrow> 'mut \<Rightarrow> string option \<Rightarrow> real \<Rightarrow> string \<Rightarrow> 'tbl \<Rightarrow> error + ('mut, 'tbl) lattice_gpm" where
  "init_gpm miyazawa_jernigan mutations_to_genotypes
     wildtype' mutations' target_conf' temperature' phenotype_type' interaction_energies' =
     (if phenotype_type' \<notin> set types then Inl InvalidPhenotypeType
      else Inr \<lparr>
        wildtype = wildtype',
        mutations = mutations',
        interaction_energies = miyazawa_jernigan,
        temperature = temperature',
        target_conf = target_conf',
        p_phenotype_type = phenotype_type',
        genotypes = mutations_to_genotypes wildtype' mutations',
        log_transform = False,
        n_replicates = None,
        stdeviations = None,
        p_nativeEs = None,
        p_confs = None,
        p_partition_sum = None,
        p_folded = None,
        partition_confs = None,
        partition_confs_set = None\<rparr>)"

subsection \<open>Scoring against an explicit list of conformations\<close>

text \<open>
  The local variables of the inner loop of \<^verbatim>\<open>recalculate_partition_sum\<close>. The variable
  \<^verbatim>\<open>folded\<close> is local to the function, not to one turn of the outer loop: it is unbound
  (\<open>None\<close>) until its first assignment and keeps its value from one genotype to the next.
  (The source also sets \<^verbatim>\<open>fold = True\<close> for every genotype, a variable it never reads.)
\<close>

record locals =
  l_z :: real
  l_conf_energies :: "real list"
  l_min_conf :: string
  l_min_energy :: real
  l_folded :: "bool option"

text \<open>
  One turn of \<^verbatim>\<open>for conf in conf_list\<close>. \<open>fold_energy\<close> is the function of
  \<^verbatim>\<open>latticegpm.thermo\<close>, taken as a parameter: a pure function of the sequence, the
  conformation and the interaction table.
\<close>

definition score_conf ::
  "(string \<Rightarrow> string \<Rightarrow> 'tbl \<Rightarrow> real) \<Rightarrow> real \<Rightarrow> 'tbl \<Rightarrow> string \<Rightarrow> locals \<Rightarrow> string \<Rightarrow> locals" where
  "score_conf fold_energy T table genotype st conf =
     (let fe = fold_energy genotype conf table;
          st1 = st\<lparr>l_z := l_z st + exp (- fe / T),
                   l_conf_energies := l_conf_energies st @ [fe]\<rparr>
      in if fe < l_min_energy st1 then
           st1\<lparr>l_min_energy := fe, l_min_conf := conf, l_folded := Some True\<rparr>
         else if fe = l_min_energy st1 then
           st1\<lparr>l_folded := Some False\<rparr>
         else st1)"

definition score_genotype ::
  "(string \<Rightarrow> string \<Rightarrow> 'tbl \<Rightarrow> real) \<Rightarrow> real \<Rightarrow> 'tbl \<Rightarrow> string \<Rightarrow> bool option \<Rightarrow> string list \<Rightarrow> locals" where
  "score_genotype fold_energy T table genotype folded_before conf_list =
     foldl (score_conf fold_energy T table genotype)
       \<lparr>l_z = 0, l_conf_energies = [], l_min_conf = [], l_min_energy = 0,
        l_folded = folded_before\<rparr>
       conf_list"

text \<open>
  The outer loop \<^verbatim>\<open>for i in range(self.n)\<close>, on the indices still to do. In
  \<^verbatim>\<open>self._folded[i] = folded\<close> Python evaluates the right-hand side first.
\<close>

fun recalculate_loop ::
  "(string \<Rightarrow> string \<Rightarrow> 'tbl \<Rightarrow> real) \<Rightarrow> string list \<Rightarrow> bool option \<Rightarrow> nat list \<Rightarrow>
   ('mut, 'tbl) lattice_gpm \<Rightarrow> error + ('mut, 'tbl) lattice_gpm" where
  "recalculate_loop fold_energy conf_list folded_before [] m = Inr m"
| "recalculate_loop fold_energy conf_list folded_before (i # rest) m =
     (let st = score_genotype fold_energy (temperature m) (interaction_energies m)
                 (genotypes m ! i) folded_before conf_list
      in and_then (attr (p_partition_sum m)) (\<lambda>zs.
         and_then (setitem zs i (l_z st)) (\<lambda>zs'.
         let m1 = m\<lparr>p_partition_sum := Some zs'\<rparr>
         in if target_conf m1 = None then
              and_then (attr (p_nativeEs m1)) (\<lambda>es.
              and_then (setitem es i (l_min_energy st)) (\<lambda>es'.
              and_then (case l_folded st of None \<Rightarrow> Inl UnboundLocalError | Some f \<Rightarrow> Inr f) (\<lambda>f.
              and_then (attr (p_folded m1)) (\<lambda>fs.
              and_then (setitem fs i f) (\<lambda>fs'.
              and_then (attr (p_confs m1)) (\<lambda>cs.
              and_then (setitem_str cs i (l_min_conf st)) (\<lambda>cs'.
                recalculate_loop fold_energy conf_list (l_folded st) rest
                  (m1\<lparr>p_nativeEs := Some es', p_folded := Some fs', p_confs := Some cs'\<rparr>))))))))
            else recalculate_loop fold_energy conf_list (l_folded st) rest m1)))"

definition recalculate_partition_sum ::
  "(string \<Rightarrow> string \<Rightarrow> 'tbl \<Rightarrow> real) \<Rightarrow> ('mut, 'tbl) lattice_gpm \<Rightarrow> string list \<Rightarrow>
   error + ('mut, 'tbl) lattice_gpm" where
  "recalculate_partition_sum fold_energy m conf_list =
     recalculate_loop fold_energy conf_list None [0..<gpm_n m]
       (m\<lparr>partition_confs := Some conf_list\<rparr>)"

definition set_partition_confs ::
  "(string \<Rightarrow> string \<Rightarrow> 'tbl \<Rightarrow> real) \<Rightarrow> ('mut, 'tbl) lattice_gpm \<Rightarrow> string list \<Rightarrow>
   error + ('mut, 'tbl) lattice_gpm" where
  "set_partition_confs fold_energy m confs' =
     recalculate_partition_sum fold_energy (m\<lparr>partition_confs_set := Some confs'\<rparr>) confs'"

subsection \<open>The target conformation\<close>

text \<open>
  The loop of \<^verbatim>\<open>set_target_conf\<close>, on the indices still to do; \<open>tc\<close> is the value of
  \<^verbatim>\<open>self.target_conf\<close>, which the function has just set to its argument.
\<close>

fun set_target_loop ::
  "(string \<Rightarrow> string \<Rightarrow> 'tbl \<Rightarrow> real) \<Rightarrow> string \<Rightarrow> nat list \<Rightarrow> ('mut, 'tbl) lattice_gpm \<Rightarrow>
   error + ('mut, 'tbl) lattice_gpm" where
  "set_target_loop fold_energy tc [] m = Inr m"
| "set_target_loop fold_energy tc (i # rest) m =
     (let fe = fold_energy (genotypes m ! i) tc (interaction_energies m)
      in and_then (attr (p_nativeEs m)) (\<lambda>es.
         and_then (setitem es i fe) (\<lambda>es'.
         let m1 = m\<lparr>p_nativeEs := Some es'\<rparr>
         in and_then (confs m1) (\<lambda>cs.
            and_then (setitem_str cs i tc) (\<lambda>cs'.
              set_target_loop fold_energy tc rest (m1\<lparr>p_confs := Some cs'\<rparr>))))))"

definition set_target_conf ::
  "(string \<Rightarrow> string \<Rightarrow> 'tbl \<Rightarrow> real) \<Rightarrow> ('mut, 'tbl) lattice_gpm \<Rightarrow> string \<Rightarrow>
   error + ('mut, 'tbl) lattice_gpm" where
  "set_target_conf fold_energy m target_conf' =
     set_target_loop fold_energy target_conf' [0..<gpm_n m] (m\<lparr>target_conf := Some target_conf'\<rparr>)"

subsection \<open>Folding all genotypes\<close>

text \<open>
  \<^verbatim>\<open>fold\<close>, named \<open>fold_gpm\<close> here. The oracle is the method
  \<^verbatim>\<open>Conformations.fold_sequence(g, temperature)\<close>; its four outputs are written at index
  \<open>i\<close> of the four fresh arrays, which have \<^verbatim>\<open>self.n\<close> entries each.

  The dtype of the array of conformations is \<^verbatim>\<open>"U" + str(self.length - 1)\<close>. For a
  wildtype of one residue that is \<^verbatim>\<open>"U0"\<close>, which numpy takes as a width of one; for an
  empty wildtype it is \<^verbatim>\<open>"U-1"\<close>, which numpy does not understand (TypeError).
\<close>

definition unicode_width :: "nat \<Rightarrow> error + nat" where
  "unicode_width len = (if len = 0 then Inl TypeError else Inr (max 1 (len - 1)))"

definition fold_gpm ::
  "(string \<Rightarrow> string \<Rightarrow> 'tbl \<Rightarrow> real) \<Rightarrow> junk \<Rightarrow> ('mut, 'tbl) lattice_gpm \<Rightarrow>
   string list option \<Rightarrow> (string \<Rightarrow> real \<Rightarrow> fold_output) option \<Rightarrow>
   error + ('mut, 'tbl) lattice_gpm" where
  "fold_gpm fold_energy mem m conf_list Conformations' =
     and_then (unicode_width (gpm_length m)) (\<lambda>w.
      let m0 = m\<lparr>
            p_nativeEs := Some (np_empty (gpm_n m) (junk_nativeEs mem)),
            p_confs := Some \<lparr>width = w,
                             items = np_empty (gpm_n m) (junk_confs mem)\<rparr>,
            p_partition_sum := Some (np_empty (gpm_n m) (junk_partition_sum mem)),
            p_folded := Some (np_empty (gpm_n m) (junk_folded mem))\<rparr>
      in and_then
           (case conf_list of
              Some cl \<Rightarrow> recalculate_partition_sum fold_energy m0 cl
            | None \<Rightarrow>
                (case Conformations' of
                   Some fold_sequence \<Rightarrow>
                     (let output = map (\<lambda>g. fold_sequence g (temperature m0)) (genotypes m0)
                      in Inr (m0\<lparr>
                           p_nativeEs := Some (map fst output),
                           p_confs := Some \<lparr>width = w,
                             items = map (\<lambda>out. take w (fst (snd out))) output\<rparr>,
                           p_partition_sum := Some (map (\<lambda>out. fst (snd (snd out))) output),
                           p_folded := Some (map (\<lambda>out. snd (snd (snd out))) output)\<rparr>))
                 | None \<Rightarrow> Inl NoScoringSource))
           (\<lambda>m1. case target_conf m1 of
                    None \<Rightarrow> Inr m1
                  | Some t \<Rightarrow> set_target_conf fold_energy m1 t))"

subsection \<open>Derived phenotypes\<close>

text \<open>
  \<^verbatim>\<open>self.nativeEs + self.temperature * np.log(self._partition_sum -
  np.exp(-self.nativeEs/self.temperature))\<close>, on arrays.
\<close>

definition stabilities :: "('mut, 'tbl) lattice_gpm \<Rightarrow> error + real list" where
  "stabilities m =
     and_then (nativeEs m) (\<lambda>es.
     and_then (attr (p_partition_sum m)) (\<lambda>zs.
     and_then (broadcast (\<lambda>z e. z - exp (- e / temperature m)) zs es) (\<lambda>inner.
       broadcast (\<lambda>e x. e + temperature m * ln x) es inner)))"

definition fracfolded :: "('mut, 'tbl) lattice_gpm \<Rightarrow> error + real list" where
  "fracfolded m =
     and_then (stabilities m) (\<lambda>ss. Inr (map (\<lambda>s. 1 / (1 + exp (s / temperature m))) ss))"

section \<open>gpm.py: writing and reading a map as JSON\<close>

text \<open>
  The values that pass through \<^verbatim>\<open>json.dump\<close> and \<^verbatim>\<open>json.load\<close>, and the numpy array that
  \<^verbatim>\<open>from_json\<close> makes of every list. A file is modelled by the dictionary that
  \<^verbatim>\<open>json.load\<close> reads from it, an association list in the order of the keys; Python's
  json module writes a float so that it reads back as the same float, and strings, booleans
  and lists of them read back as they were written.
\<close>

datatype pyval =
    PNone
  | PBool bool
  | PInt int
  | PFloat real
  | PStr string
  | PList "pyval list"
  | PArray "pyval list"
  | PDict "(string \<times> pyval) list"

type_synonym pydict = "(string \<times> pyval) list"


definition necessary_args :: "string list" where
  "necessary_args = [''wildtype'', ''genotypes'', ''nativeEs'', ''partition_sum'',
     ''confs'', ''folded'', ''phenotype_type'', ''temperature'', ''mutations'']"

fun check_args :: "string list \<Rightarrow> pydict \<Rightarrow> error + unit" where
  "check_args [] data = Inr ()"
| "check_args (arg # args) data =
     (if map_of data arg = None then Inl (MissingField arg) else check_args args data)"

text \<open>\<^verbatim>\<open>data.update(**kwargs)\<close>: a key that is present keeps its place, a new key goes last.\<close>

fun dict_set :: "string \<Rightarrow> pyval \<Rightarrow> pydict \<Rightarrow> pydict" where
  "dict_set k v [] = [(k, v)]"
| "dict_set k v ((k', v') # rest) =
     (if k' = k then (k, v) # rest else (k', v') # dict_set k v rest)"

definition dict_update :: "pydict \<Rightarrow> pydict \<Rightarrow> pydict" where
  "dict_update data kwargs = foldl (\<lambda>d (k, v). dict_set k v d) data kwargs"

text \<open>
  The object that \<^verbatim>\<open>from_json\<close> builds with \<^verbatim>\<open>cls.__new__(cls)\<close> and \<^verbatim>\<open>setattr\<close> holds
  whatever the file holds, so it is modelled by its attribute dictionary.
\<close>

type_synonym pyobject = "string \<rightharpoonup> pyval"

text \<open>
  The test \<^verbatim>\<open>phenotype_type not in types\<close> of the setter. For a string it is membership in
  the list. \<^verbatim>\<open>from_json\<close> hands a list over as an array: Python compares the array with
  the strings of the list in turn and takes the truth value of each comparison, which numpy
  gives for an array of one entry and refuses (ValueError) for an array of several. So an
  array of one string passes when that string is in the list. Every other value is equal to
  no string of the list. (For an array whose entries are not all strings the comparison with
  a string depends on the version of numpy; the model refuses such an array like a value
  that is not in the list.)
\<close>

definition phenotype_type_check :: "pyval \<Rightarrow> error + unit" where
  "phenotype_type_check val =
     (case val of
        PStr s \<Rightarrow> if s \<in> set types then Inr () else Inl InvalidPhenotypeType
      | PArray xs \<Rightarrow>
          (case xs of
             [PStr s] \<Rightarrow> if s \<in> set types then Inr () else Inl InvalidPhenotypeType
           | _ \<Rightarrow>
               if 2 \<le> length xs \<and> (\<forall>x \<in> set xs. case x of PStr s \<Rightarrow> True | _ \<Rightarrow> False)
               then Inl ValueError else Inl InvalidPhenotypeType)
      | _ \<Rightarrow> Inl InvalidPhenotypeType)"

text \<open>
  \<^verbatim>\<open>setattr(gpm, key, val)\<close> goes through the setter when the class has a property of that
  name: the four array properties store under the name with an underscore,
  \<^verbatim>\<open>phenotype_type\<close> checks the value first, and \<^verbatim>\<open>phenotypes\<close>, \<^verbatim>\<open>stabilities\<close> and
  \<^verbatim>\<open>fracfolded\<close> have no setter. Modelled from the spec: \<^verbatim>\<open>n\<close> and \<^verbatim>\<open>length\<close> are
  properties that the base class of the gpmap package derives from the genotypes, without a
  setter either; other properties that the base class may have are not modelled.
\<close>

definition setattr :: "pyobject \<Rightarrow> string \<Rightarrow> pyval \<Rightarrow> error + pyobject" where
  "setattr obj key val =
     (if key \<in> {''nativeEs'', ''partition_sum'', ''confs'', ''folded''} then
        Inr (obj(CHR ''_'' # key \<mapsto> val))
      else if key = ''phenotype_type'' then
        and_then (phenotype_type_check val) (\<lambda>_. Inr (obj(''_phenotype_type'' \<mapsto> val)))
      else if key \<in> {''phenotypes'', ''stabilities'', ''fracfolded'', ''n'', ''length''} then
        Inl AttributeError
      else Inr (obj(key \<mapsto> val)))"

text \<open>Reading an attribute of such an object, through the getter of a property.\<close>

definition getattr :: "pyobject \<Rightarrow> string \<Rightarrow> error + pyval" where
  "getattr obj key =
     (if key \<in> {''nativeEs'', ''partition_sum'', ''confs'', ''folded'', ''phenotype_type''} then
        attr (obj (CHR ''_'' # key))
      else attr (obj key))"

text \<open>
  The loop \<^verbatim>\<open>for key, val in data.items()\<close>: a list becomes \<^verbatim>\<open>np.array(val)\<close>, which for a
  list of floats, of strings or of booleans is the array of the same entries.
\<close>

fun setattrs :: "pyobject \<Rightarrow> pydict \<Rightarrow> error + pyobject" where
  "setattrs obj [] = Inr obj"
| "setattrs obj ((key, val) # rest) =
     and_then (setattr obj key (case val of PList xs \<Rightarrow> PArray xs | _ \<Rightarrow> val))
       (\<lambda>obj'. setattrs obj' rest)"

text \<open>
  The part of \<^verbatim>\<open>from_json\<close> before \<^verbatim>\<open>gpm._build()\<close>: the check of the necessary keys, the
  update with the keyword arguments, and the loop over the items on a new object.
\<close>

definition load_attrs :: "pydict \<Rightarrow> pydict \<Rightarrow> error + pyobject" where
  "load_attrs data kwargs =
     and_then (check_args necessary_args data) (\<lambda>_.
       setattrs Map.empty (dict_update data kwargs))"

text \<open>
  \<^verbatim>\<open>_build\<close> on such an object: its three plain assignments, then
  \<^verbatim>\<open>self.binary = BinaryMap(self, self.wildtype)\<close>. \<^verbatim>\<open>BinaryMap\<close> is a class of the gpmap
  package, which is not part of this repository, so its constructor is a parameter: a
  function of the object and of the wildtype that returns the binary map or raises.
\<close>

definition build_attrs :: "pyobject \<Rightarrow> pyobject" where
  "build_attrs obj =
     obj(''log_transform'' \<mapsto> PBool False, ''n_replicates'' \<mapsto> PNone, ''stdeviations'' \<mapsto> PNone)"

definition build_object :: "(pyobject \<Rightarrow> pyval \<Rightarrow> error + pyval) \<Rightarrow> pyobject \<Rightarrow> error + pyobject" where
  "build_object BinaryMap obj =
     (let obj1 = build_attrs obj
      in and_then (getattr obj1 ''wildtype'') (\<lambda>w.
         and_then (BinaryMap obj1 w) (\<lambda>b.
           Inr (obj1(''binary'' \<mapsto> b)))))"

definition from_json ::
  "(pyobject \<Rightarrow> pyval \<Rightarrow> error + pyval) \<Rightarrow> pydict \<Rightarrow> pydict \<Rightarrow> error + pyobject" where
  "from_json BinaryMap data kwargs =
     and_then (load_attrs data kwargs) (build_object BinaryMap)"

section \<open>Invariants used in the proofs\<close>

text \<open>
  What the sequences collected by the search loop satisfy at every turn: at most two, all
  accepted by the oracle, and a second one only at full Hamming distance from the first.
\<close>

definition pair_inv :: "(string \<Rightarrow> bool) \<Rightarrow> nat \<Rightarrow> string list \<Rightarrow> bool" where
  "pair_inv ok len sequences \<longleftrightarrow>
     length sequences \<le> 2 \<and> (\<forall>s \<in> set sequences. ok s) \<and>
     (length sequences = 2 \<longrightarrow> HammingDistance (sequences ! 0) (sequences ! 1) = len)"

text \<open>
  A map that \<^verbatim>\<open>fold\<close> has prepared for scoring: the four arrays exist and have one entry
  per genotype.
\<close>

definition allocated :: "('mut, 'tbl) lattice_gpm \<Rightarrow> bool" where
  "allocated m \<longleftrightarrow>
     map_option length (p_partition_sum m) = Some (gpm_n m) \<and>
     map_option length (p_nativeEs m) = Some (gpm_n m) \<and>
     map_option length (p_folded m) = Some (gpm_n m) \<and>
     map_option (\<lambda>cs. length (items cs)) (p_confs m) = Some (gpm_n m)"

section \<open>A small map for the examples\<close>

text \<open>
  A map over the given genotypes (sequences of two residues) at temperature one, with no
  target conformation and a trivial mutation dictionary and interaction table, as
  \<^verbatim>\<open>fold\<close> leaves it before it scores: four arrays of one entry per genotype, the array
  of conformations of width one.
\<close>

definition example_gpm :: "string list \<Rightarrow> (unit, unit) lattice_gpm" where
  "example_gpm gs = \<lparr>
     wildtype = ''AB'',
     mutations = (),
     interaction_energies = (),
     temperature = 1,
     target_conf = None,
     p_phenotype_type = ''stabilities'',
     genotypes = gs,
     log_transform = False,
     n_replicates = None,
     stdeviations = None,
     p_nativeEs = Some (replicate (length gs) 0),
     p_confs = Some \<lparr>width = 1, items = replicate (length gs) []\<rparr>,
     p_partition_sum = Some (replicate (length gs) 0),
     p_folded = Some (replicate (length gs) False),
     partition_confs = None,
     partition_confs_set = None\<rparr>"

section \<open>The binary strings\<close>

lemma length_product_repeat_01: "length (product_repeat ''01'' n) = 2 ^ n"
  by (induction n) simp_all

lemma set_product_repeat_01: "set (product_repeat ''01'' n) = bit_strings n"
proof (induction n)
  case 0
  show ?case by (auto simp: bit_strings_def)
next
  case (Suc n)
  have "bit_strings (Suc n) =
      (#) CHR ''0'' ` bit_strings n \<union> (#) CHR ''1'' ` bit_strings n" (is "?L = ?R")
  proof
    show "?L \<subseteq> ?R"
    proof
      fix b assume "b \<in> ?L"
      then obtain c cs where b: "b = c # cs" and "length cs = n"
        and "c = CHR ''0'' \<or> c = CHR ''1''" and "set cs \<subseteq> {CHR ''0'', CHR ''1''}"
        by (cases b) (auto simp: bit_strings_def)
      then show "b \<in> ?R" by (auto simp: bit_strings_def)
    qed
    show "?R \<subseteq> ?L" by (auto simp: bit_strings_def)
  qed
  with Suc show ?case by auto
qed

lemma strict_sorted_product_repeat_01: "sorted_wrt (<) (product_repeat ''01'' n)"
proof (induction n)
  case 0
  show ?case by simp
next
  case (Suc n)
  have lt: "CHR ''0'' < CHR ''1''" by (simp add: less_char_def)
  have m: "sorted_wrt (<) (map ((#) c) (product_repeat ''01'' n))" for c :: char
    using Suc by (simp add: sorted_wrt_map)
  show ?case using lt m by (auto simp: sorted_wrt_append)
qed

lemma binaries_eq: "binaries n = product_repeat ''01'' n"
  unfolding binaries_def
  by (rule sorted_sort_id) (rule strict_sorted_imp_sorted [OF strict_sorted_product_repeat_01])

lemma binaries_sorted_list_of_set: "binaries n = sorted_list_of_set (bit_strings n)"
proof -
  have "sorted_list_of_set (set (product_repeat ''01'' n)) = product_repeat ''01'' n"
    using strict_sorted_product_repeat_01 [of n]
    by (simp add: sorted_list_of_set.idem_if_sorted_distinct strict_sorted_iff)
  then show ?thesis by (simp add: binaries_eq set_product_repeat_01)
qed

section \<open>The enumeration of the sequence space\<close>


lemma HammingDistance_Cons:
  "HammingDistance (x # xs) (y # ys) = (if x \<noteq> y then 1 else 0) + HammingDistance xs ys"
  by (simp add: HammingDistance_def)

lemma HammingDistance_le: "HammingDistance a b \<le> length a"
  unfolding HammingDistance_def
  by (metis length_filter_le length_zip min.cobounded1 order_trans)

lemma HammingDistance_full_iff:
  assumes "length a = length b"
  shows "HammingDistance a b = length a \<longleftrightarrow> (\<forall>j < length a. a ! j \<noteq> b ! j)"
  using assms
proof (induction a b rule: list_induct2)
  case Nil
  show ?case by (simp add: HammingDistance_def)
next
  case (Cons x xs y ys)
  have le: "HammingDistance xs ys \<le> length xs" by (rule HammingDistance_le)
  show ?case
  proof (cases "x = y")
    case True
    then show ?thesis using le by (auto simp: HammingDistance_Cons)
  next
    case False
    then show ?thesis using Cons.IH
      by (auto simp: HammingDistance_Cons nth_Cons split: nat.splits)
  qed
qed

lemma bit_strings_nth:
  "b \<in> bit_strings n \<Longrightarrow> j < n \<Longrightarrow> b ! j = CHR ''0'' \<or> b ! j = CHR ''1''"
proof -
  assume b: "b \<in> bit_strings n" and j: "j < n"
  then have "b ! j \<in> set b" by (simp add: bit_strings_def)
  with b show ?thesis by (auto simp: bit_strings_def)
qed

lemma length_build_sequence [simp]: "length (build_sequence w m b) = length w"
  by (simp add: build_sequence_def)

lemma nth_build_sequence:
  "j < length w \<Longrightarrow> build_sequence w m b ! j = (if b ! j = CHR ''0'' then w ! j else m ! j)"
  by (simp add: build_sequence_def)

lemma build_sequence_inj_on:
  assumes diff: "\<forall>j < length w. w ! j \<noteq> m ! j"
  shows "inj_on (build_sequence w m) (bit_strings (length w))"
proof (rule inj_onI)
  fix a b
  assume a: "a \<in> bit_strings (length w)" and b: "b \<in> bit_strings (length w)"
    and eq: "build_sequence w m a = build_sequence w m b"
  have la: "length a = length w" and lb: "length b = length w"
    using a b by (simp_all add: bit_strings_def)
  show "a = b"
  proof (rule nth_equalityI)
    show "length a = length b" using la lb by simp
  next
    fix j assume "j < length a"
    then have j: "j < length w" using la by simp
    have "build_sequence w m a ! j = build_sequence w m b ! j" using eq by simp
    then have "(a ! j = CHR ''0'') = (b ! j = CHR ''0'')"
      using diff j by (auto simp: nth_build_sequence split: if_splits)
    then show "a ! j = b ! j"
      using bit_strings_nth [OF a j] bit_strings_nth [OF b j] by auto
  qed
qed

text \<open>
  Claim C1. For a wildtype \<open>wt\<close> and a mutant \<open>mt\<close> of the same length \<open>L\<close> that differ at
  every site, \<open>generate_binary_space\<close> returns \<open>2 ^ L\<close> sequences, all different and all of
  length \<open>L\<close>; the \<open>i\<close>-th sequence follows the \<open>i\<close>-th binary string of length \<open>L\<close> in
  ascending lexicographic order: its character \<open>j\<close> is the mutant's where that string has
  \<open>1\<close> at position \<open>j\<close>, and the wildtype's otherwise.
\<close>

theorem generate_binary_space_enumerates:
  assumes len: "length wt = length mt"
    and diff: "\<forall>j < length wt. wt ! j \<noteq> mt ! j"
  shows "\<exists>space. generate_binary_space wt mt = Inr space
      \<and> length space = 2 ^ length wt
      \<and> distinct space
      \<and> (\<forall>s \<in> set space. length s = length wt)
      \<and> (\<forall>i < 2 ^ length wt. \<forall>j < length wt.
            space ! i ! j =
              (if sorted_list_of_set (bit_strings (length wt)) ! i ! j = CHR ''1''
               then mt ! j else wt ! j))"
proof -
  let ?L = "length wt"
  let ?space = "map (build_sequence wt mt) (binaries ?L)"
  have run: "generate_binary_space wt mt = Inr ?space"
    using diff HammingDistance_full_iff [OF len] by (simp add: generate_binary_space_def len)
  have n: "length (binaries ?L) = 2 ^ ?L"
    by (simp add: binaries_eq length_product_repeat_01)
  have set: "set (binaries ?L) = bit_strings ?L"
    by (simp add: binaries_eq set_product_repeat_01)
  have dist: "distinct (binaries ?L)"
    using strict_sorted_product_repeat_01 [of ?L] by (simp add: binaries_eq strict_sorted_iff)
  have d: "distinct ?space"
    using dist build_sequence_inj_on [OF diff] by (simp add: distinct_map set)
  have chars: "?space ! i ! j =
      (if sorted_list_of_set (bit_strings ?L) ! i ! j = CHR ''1'' then mt ! j else wt ! j)"
    if i: "i < 2 ^ ?L" and j: "j < ?L" for i j
  proof -
    have mem: "binaries ?L ! i \<in> bit_strings ?L"
      using i n set nth_mem [of i "binaries ?L"] by simp
    have "?space ! i ! j = (if binaries ?L ! i ! j = CHR ''0'' then wt ! j else mt ! j)"
      using i j n by (simp add: nth_build_sequence)
    also have "\<dots> = (if binaries ?L ! i ! j = CHR ''1'' then mt ! j else wt ! j)"
      using bit_strings_nth [OF mem j] by auto
    finally show ?thesis by (simp add: binaries_sorted_list_of_set)
  qed
  show ?thesis using run n d chars by auto
qed

theorem generate_binary_space_enumerates_witness:
  "length ''AB'' = length ''CD''
   \<and> ''AB'' ! 0 \<noteq> ''CD'' ! 0 \<and> ''AB'' ! 1 \<noteq> ''CD'' ! 1
   \<and> (\<exists>space. generate_binary_space ''AB'' ''CD'' = Inr space
      \<and> length space = 2 ^ length ''AB''
      \<and> distinct space
      \<and> (\<forall>s \<in> set space. length s = length ''AB'')
      \<and> (\<forall>i < 2 ^ length ''AB''. \<forall>j < length ''AB''.
            space ! i ! j =
              (if sorted_list_of_set (bit_strings (length ''AB'')) ! i ! j = CHR ''1''
               then ''CD'' ! j else ''AB'' ! j)))"
proof -
  have len: "length ''AB'' = length ''CD''" by simp
  have diff: "\<forall>j < length ''AB''. ''AB'' ! j \<noteq> ''CD'' ! j"
    by (simp add: numeral_2_eq_2 less_Suc_eq)
  have sites: "''AB'' ! 0 \<noteq> ''CD'' ! 0 \<and> ''AB'' ! 1 \<noteq> ''CD'' ! 1" by simp
  show ?thesis
    using len sites generate_binary_space_enumerates [OF len diff] by blast
qed

text \<open>
  Claim C9. \<open>generate_binary_space\<close> raises the length error (\<open>IndexError\<close>, the
  specification's ValidationError) when the lengths differ, raises the divergence error
  (\<open>NotDivergent\<close>) when the lengths agree and some site does not differ, and raises nothing
  for a pair of equal length that differs at every site.
\<close>

theorem generate_binary_space_errors:
  "(length wt \<noteq> length mt \<longrightarrow>
      generate_binary_space wt mt = Inl IndexError)
   \<and> (length wt = length mt \<and> \<not> (\<forall>j < length wt. wt ! j \<noteq> mt ! j) \<longrightarrow>
      generate_binary_space wt mt = Inl NotDivergent)
   \<and> (length wt = length mt \<and> (\<forall>j < length wt. wt ! j \<noteq> mt ! j) \<longrightarrow>
      (\<exists>space. generate_binary_space wt mt = Inr space))"
proof (cases "length wt = length mt")
  case True
  show ?thesis
    using HammingDistance_full_iff [OF True] by (simp add: generate_binary_space_def True)
next
  case False
  then show ?thesis by (simp add: generate_binary_space_def)
qed

theorem generate_binary_space_errors_witness:
  "length ''AB'' \<noteq> length ''ABC''
   \<and> generate_binary_space ''AB'' ''ABC'' = Inl IndexError
   \<and> length ''AB'' = length ''AB'' \<and> ''AB'' ! 0 = ''AB'' ! 0
   \<and> generate_binary_space ''AB'' ''AB'' = Inl NotDivergent
   \<and> length ''AB'' = length ''CD'' \<and> ''AB'' ! 0 \<noteq> ''CD'' ! 0 \<and> ''AB'' ! 1 \<noteq> ''CD'' ! 1
   \<and> (\<exists>space. generate_binary_space ''AB'' ''CD'' = Inr space)"
proof -
  have h1: "length ''AB'' \<noteq> length ''ABC''" by simp
  have h2: "length ''AB'' = length ''AB'' \<and> \<not> (\<forall>j < length ''AB''. ''AB'' ! j \<noteq> ''AB'' ! j)"
    by (auto intro: exI [of _ 0])
  have h3: "length ''AB'' = length ''CD'' \<and> (\<forall>j < length ''AB''. ''AB'' ! j \<noteq> ''CD'' ! j)"
    by (simp add: numeral_2_eq_2 less_Suc_eq)
  have sites: "''AB'' ! 0 = ''AB'' ! 0 \<and> ''AB'' ! 0 \<noteq> ''CD'' ! 0 \<and> ''AB'' ! 1 \<noteq> ''CD'' ! 1"
    by simp
  show ?thesis
    using h1 h2 h3 sites
      generate_binary_space_errors [of "''AB''" "''ABC''"]
      generate_binary_space_errors [of "''AB''" "''AB''"]
      generate_binary_space_errors [of "''AB''" "''CD''"]
    by blast
qed

section \<open>The random landscape search\<close>

lemma search_loop_stop:
  "\<not> (length sequences < 2 \<and> counter < max_iter) \<Longrightarrow>
     search_loop ok len rnd max_iter sequences counter = (sequences, counter)"
  by (subst search_loop.simps) auto

lemma search_loop_step:
  "length sequences < 2 \<and> counter < max_iter \<Longrightarrow>
     search_loop ok len rnd max_iter sequences counter =
     search_loop ok len rnd max_iter
       (if ok (rnd (nat counter)) then
          (if length sequences > 0 then
             (if py_is (HammingDistance (sequences ! 0) (rnd (nat counter))) len
              then sequences @ [rnd (nat counter)] else sequences)
           else sequences @ [rnd (nat counter)])
        else sequences)
       (counter + 1)"
  by (subst search_loop.simps) (simp add: Let_def)

lemma search_loop_inv:
  assumes "pair_inv ok len sequences"
  shows "pair_inv ok len (fst (search_loop ok len rnd max_iter sequences counter))"
  using assms
proof (induction ok len rnd max_iter sequences counter rule: search_loop.induct)
  case (1 ok len rnd max_iter sequences counter)
  show ?case
  proof (cases "length sequences < 2 \<and> counter < max_iter")
    case False
    then show ?thesis using "1.prems" by (simp add: search_loop_stop)
  next
    case True
    let ?s = "rnd (nat counter)"
    let ?next = "(if ok ?s then
          (if length sequences > 0 then
             (if py_is (HammingDistance (sequences ! 0) ?s) len
              then sequences @ [?s] else sequences)
           else sequences @ [?s])
        else sequences)"
    have inv: "pair_inv ok len ?next"
      using "1.prems" True
      by (auto simp: pair_inv_def py_is_def nth_append less_Suc_eq numeral_2_eq_2)
    have "pair_inv ok len (fst (search_loop ok len rnd max_iter ?next (counter + 1)))"
      using "1.IH" [OF True refl refl inv] .
    then show ?thesis using True by (simp add: search_loop_step)
  qed
qed

lemma search_loop_counter:
  assumes "search_loop ok len rnd max_iter sequences counter = (sequences', counter')"
    and "counter \<le> max_iter"
  shows "counter' \<le> max_iter \<and> (counter' < max_iter \<longrightarrow> 2 \<le> length sequences')"
  using assms
proof (induction ok len rnd max_iter sequences counter rule: search_loop.induct)
  case (1 ok len rnd max_iter sequences counter)
  show ?case
  proof (cases "length sequences < 2 \<and> counter < max_iter")
    case False
    then show ?thesis using "1.prems" by (auto simp: search_loop_stop)
  next
    case True
    show ?thesis
      using "1.IH" [OF True refl refl] "1.prems" True
      by (simp add: search_loop_step)
  qed
qed

lemma search_loop_pair:
  assumes run: "search_loop ok len rnd max_iter [] 0 = (sequences, counter)"
    and budget: "0 \<le> max_iter" and ne: "counter \<noteq> max_iter"
  shows "\<exists>a b. sequences = [a, b] \<and> HammingDistance a b = len \<and> ok a \<and> ok b"
proof -
  have "pair_inv ok len (fst (search_loop ok len rnd max_iter [] 0))"
    by (rule search_loop_inv) (simp add: pair_inv_def)
  then have inv: "pair_inv ok len sequences" using run by simp
  have "2 \<le> length sequences"
    using search_loop_counter [OF run] budget ne by simp
  with inv have len2: "length sequences = 2" by (simp add: pair_inv_def)
  then obtain a b where ab: "sequences = [a, b]"
    by (cases sequences; cases "tl sequences") auto
  with inv show ?thesis by (simp add: pair_inv_def)
qed

lemma search_conformation_space_pair:
  assumes "search_conformation_space rnd C T threshold max_iter = Inr sequences"
    and "0 \<le> max_iter"
  shows "\<exists>a b. sequences = [a, b] \<and> HammingDistance a b = Length C
           \<and> fst (FoldSequence C a T) < threshold \<and> fst (FoldSequence C b T) < threshold"
proof -
  obtain ss c where run:
    "search_loop (\<lambda>sequence. fst (FoldSequence C sequence T) < threshold) (Length C) rnd max_iter [] 0
       = (ss, c)"
    by (cases "search_loop (\<lambda>sequence. fst (FoldSequence C sequence T) < threshold) (Length C) rnd max_iter [] 0")
  with assms(1) have "c \<noteq> max_iter" and "ss = sequences"
    by (auto simp: search_conformation_space_def split: if_splits)
  with search_loop_pair [OF run assms(2)] show ?thesis by simp
qed

lemma search_fitness_landscape_pair:
  assumes "search_fitness_landscape rnd F threshold max_iter = Inr sequences"
    and "0 \<le> max_iter"
  shows "\<exists>a b. sequences = [a, b] \<and> HammingDistance a b = Length_f F
           \<and> Fitness_f F a > threshold \<and> Fitness_f F b > threshold"
proof -
  obtain ss c where run:
    "search_loop (\<lambda>sequence. Fitness_f F sequence > threshold) (Length_f F) rnd max_iter [] 0
       = (ss, c)"
    by (cases "search_loop (\<lambda>sequence. Fitness_f F sequence > threshold) (Length_f F) rnd max_iter [] 0")
  with assms(1) have "c \<noteq> max_iter" and "ss = sequences"
    by (auto simp: search_fitness_landscape_def split: if_splits)
  with search_loop_pair [OF run assms(2)] show ?thesis by simp
qed

lemma search_loop_two_draws:
  assumes "ok ''AB''" and "ok ''CD''"
  shows "search_loop ok 2 (\<lambda>k. if k = 0 then ''AB'' else ''CD'') 2 [] 0 = ([''AB'', ''CD''], 2)"
proof -
  let ?rnd = "\<lambda>k::nat. if k = 0 then ''AB'' else ''CD''"
  have "search_loop ok 2 ?rnd 2 [] 0 = search_loop ok 2 ?rnd 2 [''AB''] 1"
    using assms by (subst search_loop_step) simp_all
  also have "\<dots> = search_loop ok 2 ?rnd 2 [''AB'', ''CD''] 2"
    using assms by (subst search_loop_step) (simp_all add: HammingDistance_def py_is_def)
  also have "\<dots> = ([''AB'', ''CD''], 2)"
    by (rule search_loop_stop) simp
  finally show ?thesis .
qed

text \<open>
  Claim C4 says that the search raises its error exactly when the budget runs out with no
  fully divergent pair found, and returns the pair whenever one is found within the budget.
  With a budget of two draws, of which the first is \<open>AB\<close> and the second \<open>CD\<close>, both
  accepted by the oracle and at Hamming distance two, the loop ends holding the pair after
  the second draw, and both search functions raise the error all the same: the test after
  the loop is \<^verbatim>\<open>counter == max_iter\<close>.
\<close>

theorem search_exhausted_despite_pair:
  "search_loop (\<lambda>sequence. fst (FoldSequence \<lparr>Length = 2, FoldSequence = (\<lambda>s T. (- 1, [], 1, True))\<rparr> sequence 1) < 0)
       2 (\<lambda>k. if k = 0 then ''AB'' else ''CD'') 2 [] 0 = ([''AB'', ''CD''], 2)
   \<and> HammingDistance ''AB'' ''CD'' = 2
   \<and> search_conformation_space (\<lambda>k. if k = 0 then ''AB'' else ''CD'')
        \<lparr>Length = 2, FoldSequence = (\<lambda>s T. (- 1, [], 1, True))\<rparr> 1 0 2 = Inl SearchExhausted
   \<and> search_fitness_landscape (\<lambda>k. if k = 0 then ''AB'' else ''CD'')
        \<lparr>Length_f = 2, Fitness_f = (\<lambda>s. 1)\<rparr> 0 2 = Inl SearchExhausted"
  by (simp add: search_conformation_space_def search_fitness_landscape_def
        search_loop_two_draws HammingDistance_def)

text \<open>
  Claim C5 says that a search that returns normally returns a pair of accepted sequences at
  full Hamming distance. With a negative budget the loop makes no draw, the counter (zero)
  differs from the budget, and both search functions return the empty list. (For a budget
  that is not negative the claim holds: \<open>search_conformation_space_pair\<close> and
  \<open>search_fitness_landscape_pair\<close> above.)
\<close>

theorem search_returns_no_pair:
  "search_conformation_space (\<lambda>k. if k = 0 then ''AB'' else ''CD'')
        \<lparr>Length = 2, FoldSequence = (\<lambda>s T. (- 1, [], 1, True))\<rparr> 1 0 (- 1) = Inr []
   \<and> search_fitness_landscape (\<lambda>k. if k = 0 then ''AB'' else ''CD'')
        \<lparr>Length_f = 2, Fitness_f = (\<lambda>s. 1)\<rparr> 0 (- 1) = Inr []"
  by (simp add: search_conformation_space_def search_fitness_landscape_def search_loop_stop)

section \<open>Sequencing, attributes and arrays\<close>

lemma and_then_Inr [simp]: "and_then (Inr x) f = f x"
  by (simp add: and_then_def)

lemma and_then_Inl [simp]: "and_then (Inl e) f = Inl e"
  by (simp add: and_then_def)

lemma attr_Some [simp]: "attr (Some x) = Inr x"
  by (simp add: attr_def)

lemma attr_None [simp]: "attr None = Inl AttributeError"
  by (simp add: attr_def)

lemma broadcast_same_length:
  "length xs = length ys \<Longrightarrow> broadcast f xs ys = Inr (map2 f xs ys)"
  by (simp add: broadcast_def)

lemma setitem_in_range [simp]: "i < length xs \<Longrightarrow> setitem xs i v = Inr (xs[i := v])"
  by (simp add: setitem_def)

lemma setitem_str_in_range [simp]:
  "i < length (items a) \<Longrightarrow> setitem_str a i s = Inr (a\<lparr>items := (items a)[i := take (width a) s]\<rparr>)"
  by (simp add: setitem_str_def)

lemma example_allocated: "allocated (example_gpm gs)"
  by (simp add: allocated_def example_gpm_def gpm_n_def)

lemma singleton_nth: "length xs = Suc 0 \<Longrightarrow> xs = [xs ! 0]"
  by (cases xs) simp_all

section \<open>Stability and fraction folded\<close>

text \<open>
  Claim C7. For a scored map at a temperature other than zero and a genotype \<open>i\<close> whose
  partition sum exceeds \<open>exp (- native_energy / temperature)\<close>, entry \<open>i\<close> of
  \<open>stabilities\<close> is \<open>native_energy + temperature * ln (partition_sum - exp (- native_energy /
  temperature))\<close>, and entry \<open>i\<close> of \<open>fracfolded\<close> is \<open>1 / (1 + exp (stability /
  temperature))\<close> of that same stability.
\<close>

theorem stabilities_fracfolded_formula:
  assumes es: "p_nativeEs m = Some es" and zs: "p_partition_sum m = Some zs"
    and len: "length zs = length es" and i: "i < length es"
    and T: "temperature m \<noteq> 0"
    and pos: "zs ! i > exp (- (es ! i) / temperature m)"
  shows "\<exists>ss fs. stabilities m = Inr ss \<and> fracfolded m = Inr fs
      \<and> length ss = length es \<and> length fs = length es
      \<and> ss ! i = es ! i + temperature m * ln (zs ! i - exp (- (es ! i) / temperature m))
      \<and> fs ! i = 1 / (1 + exp (ss ! i / temperature m))"
proof -
  let ?T = "temperature m"
  let ?inner = "map2 (\<lambda>z e. z - exp (- e / ?T)) zs es"
  let ?ss = "map2 (\<lambda>e x. e + ?T * ln x) es ?inner"
  have inner: "broadcast (\<lambda>z e. z - exp (- e / ?T)) zs es = Inr ?inner"
    using len by (rule broadcast_same_length)
  have outer: "broadcast (\<lambda>e x. e + ?T * ln x) es ?inner = Inr ?ss"
    using len by (intro broadcast_same_length) simp
  have st: "stabilities m = Inr ?ss"
    by (simp only: stabilities_def nativeEs_def es zs attr_Some and_then_Inr inner outer)
  have ff: "fracfolded m = Inr (map (\<lambda>s. 1 / (1 + exp (s / ?T))) ?ss)"
    by (simp only: fracfolded_def st and_then_Inr)
  have lss: "length ?ss = length es" using len by simp
  have nth: "?ss ! i = es ! i + ?T * ln (zs ! i - exp (- (es ! i) / ?T))"
    using i len by simp
  show ?thesis
    using st ff lss nth i by (intro exI [of _ ?ss] exI [of _ "map (\<lambda>s. 1 / (1 + exp (s / ?T))) ?ss"]) simp
qed

theorem stabilities_fracfolded_formula_witness:
  "p_nativeEs ((example_gpm [''AB''])\<lparr>p_nativeEs := Some [- 2], p_partition_sum := Some [exp 2 + exp 2]\<rparr>)
     = Some [- 2]
   \<and> temperature ((example_gpm [''AB''])\<lparr>p_nativeEs := Some [- 2], p_partition_sum := Some [exp 2 + exp 2]\<rparr>) = 1
   \<and> exp (- (- 2) / 1) < exp 2 + exp (2::real)
   \<and> (\<exists>ss fs.
        stabilities ((example_gpm [''AB''])\<lparr>p_nativeEs := Some [- 2], p_partition_sum := Some [exp 2 + exp 2]\<rparr>) = Inr ss
      \<and> fracfolded ((example_gpm [''AB''])\<lparr>p_nativeEs := Some [- 2], p_partition_sum := Some [exp 2 + exp 2]\<rparr>) = Inr fs
      \<and> ss ! 0 = 0 \<and> fs ! 0 = 1 / 2)"
proof -
  let ?m = "(example_gpm [''AB''])\<lparr>p_nativeEs := Some [- 2], p_partition_sum := Some [exp 2 + exp 2]\<rparr>"
  have es: "p_nativeEs ?m = Some [- 2]" and zs: "p_partition_sum ?m = Some [exp 2 + exp 2]"
    and T1: "temperature ?m = 1"
    by (simp_all add: example_gpm_def)
  have T: "temperature ?m \<noteq> 0" using T1 by simp
  have len: "length [exp 2 + exp (2::real)] = length [- 2 :: real]" and i: "0 < length [- 2 :: real]"
    by simp_all
  have pos: "[exp 2 + exp 2] ! 0 > exp (- ([- 2] ! 0) / temperature ?m)"
    using T1 by simp
  from stabilities_fracfolded_formula [OF es zs len i T pos]
  obtain ss fs where "stabilities ?m = Inr ss" "fracfolded ?m = Inr fs"
    and s: "ss ! 0 = [- 2] ! 0 + temperature ?m * ln ([exp 2 + exp 2] ! 0 - exp (- ([- 2] ! 0) / temperature ?m))"
    and f: "fs ! 0 = 1 / (1 + exp (ss ! 0 / temperature ?m))"
    by blast
  moreover have "ss ! 0 = 0" using s T1 by simp
  moreover from this have "fs ! 0 = 1 / 2" using f T1 by simp
  ultimately show ?thesis using es T1 by (simp del: exp_less_cancel_iff)
qed

section \<open>Scoring one genotype against the list\<close>

lemma score_genotype_Nil:
  "score_genotype fe T tbl g fb [] =
     \<lparr>l_z = 0, l_conf_energies = [], l_min_conf = [], l_min_energy = 0, l_folded = fb\<rparr>"
  by (simp add: score_genotype_def)

lemma score_genotype_snoc:
  "score_genotype fe T tbl g fb (cl @ [c]) = score_conf fe T tbl g (score_genotype fe T tbl g fb cl) c"
  by (simp add: score_genotype_def)

lemma score_genotype_z:
  "l_z (score_genotype fe T tbl g fb cl) = (\<Sum>c\<leftarrow>cl. exp (- fe g c tbl / T))"
  by (induction cl rule: rev_induct)
     (simp_all add: score_genotype_Nil score_genotype_snoc score_conf_def Let_def)

lemma Min_insert0_snoc:
  "Min (insert (0::real) (f ` set (xs @ [x]))) = min (f x) (Min (insert 0 (f ` set xs)))"
proof -
  have "insert (0::real) (f ` set (xs @ [x])) = insert (f x) (insert 0 (f ` set xs))" by auto
  then show ?thesis by simp
qed

lemma score_genotype_min_energy:
  "l_min_energy (score_genotype fe T tbl g fb cl) = Min (insert 0 ((\<lambda>c. fe g c tbl) ` set cl))"
proof (induction cl rule: rev_induct)
  case Nil
  show ?case by (simp add: score_genotype_Nil)
next
  case (snoc c cl)
  show ?case
    unfolding Min_insert0_snoc snoc.IH [symmetric]
    by (simp add: score_genotype_snoc score_conf_def Let_def min_def)
qed

lemma score_genotype_min_energy_le: "l_min_energy (score_genotype fe T tbl g fb cl) \<le> 0"
  by (simp add: score_genotype_min_energy)

lemma score_genotype_min_conf:
  "if l_min_energy (score_genotype fe T tbl g fb cl) < 0
   then l_min_conf (score_genotype fe T tbl g fb cl) \<in> set cl \<and>
        fe g (l_min_conf (score_genotype fe T tbl g fb cl)) tbl =
          l_min_energy (score_genotype fe T tbl g fb cl)
   else l_min_conf (score_genotype fe T tbl g fb cl) = []"
proof (induction cl rule: rev_induct)
  case Nil
  show ?case by (simp add: score_genotype_Nil)
next
  case (snoc c cl)
  have le: "l_min_energy (score_genotype fe T tbl g fb cl) \<le> 0"
    by (rule score_genotype_min_energy_le)
  show ?case
    using snoc.IH le
    by (auto simp: score_genotype_snoc score_conf_def Let_def split: if_splits)
qed

lemma score_genotype_folded:
  "l_folded (score_genotype fe T tbl g fb cl) =
     (if \<exists>c \<in> set cl. fe g c tbl \<le> 0
      then Some (l_min_energy (score_genotype fe T tbl g fb cl) < 0 \<and>
                 length (filter (\<lambda>c. fe g c tbl = l_min_energy (score_genotype fe T tbl g fb cl)) cl) = 1)
      else fb)"
proof (induction cl rule: rev_induct)
  case Nil
  show ?case by (simp add: score_genotype_Nil)
next
  case (snoc c cl)
  let ?st = "score_genotype fe T tbl g fb cl"
  let ?e = "\<lambda>c. fe g c tbl"
  have le: "l_min_energy ?st \<le> 0" by (rule score_genotype_min_energy_le)
  have lower: "\<forall>d \<in> set cl. l_min_energy ?st \<le> ?e d"
    by (simp add: score_genotype_min_energy)
  have conf: "l_min_energy ?st < 0 \<Longrightarrow> l_min_conf ?st \<in> set cl \<and> ?e (l_min_conf ?st) = l_min_energy ?st"
    using score_genotype_min_conf [of fe T tbl g fb cl] by simp
  consider (less) "?e c < l_min_energy ?st" | (eq) "?e c = l_min_energy ?st"
    | (greater) "?e c > l_min_energy ?st" by linarith
  then show ?case
  proof cases
    case less
    have "filter (\<lambda>d. ?e d = ?e c) cl = []"
      using lower less by (auto simp: filter_empty_conv)
    then show ?thesis
      using less le by (simp add: score_genotype_snoc score_conf_def Let_def)
  next
    case eq
    have "l_min_energy ?st < 0 \<Longrightarrow> filter (\<lambda>d. ?e d = l_min_energy ?st) cl \<noteq> []"
      using conf by (auto simp: filter_empty_conv)
    then show ?thesis
      using eq le by (auto simp: score_genotype_snoc score_conf_def Let_def)
  next
    case greater
    have "\<exists>d \<in> set cl. ?e d \<le> 0" if "?e c \<le> 0"
    proof -
      have neg: "l_min_energy ?st < 0" using that greater by linarith
      then have "l_min_conf ?st \<in> set cl" and "?e (l_min_conf ?st) \<le> 0"
        using conf by auto
      then show ?thesis by blast
    qed
    then show ?thesis
      using greater snoc.IH by (auto simp: score_genotype_snoc score_conf_def Let_def)
  qed
qed

lemma score_genotype_folded_Some:
  assumes "fb \<noteq> None \<or> (\<exists>c \<in> set cl. fe g c tbl \<le> 0)"
  shows "\<exists>f. l_folded (score_genotype fe T tbl g fb cl) = Some f"
  using assms by (auto simp: score_genotype_folded)

lemma length_filter_two:
  assumes "i < j" and "j < length xs" and "P (xs ! i)" and "P (xs ! j)"
  shows "2 \<le> length (filter P xs)"
proof -
  have "{i, j} \<subseteq> {k. k < length xs \<and> P (xs ! k)}" using assms by auto
  then have "card {i, j} \<le> card {k. k < length xs \<and> P (xs ! k)}"
    by (intro card_mono) auto
  then show ?thesis using assms(1) by (simp add: length_filter_conv_card)
qed

lemma Min_insert0_nonpos:
  assumes "finite S" and "x \<in> S" and "x \<le> (0::real)"
  shows "Min (insert 0 S) = Min S"
proof -
  have ne: "S \<noteq> {}" using assms(2) by auto
  have "Min S \<le> x" using assms(1,2) by simp
  then have le: "Min S \<le> 0" using assms(3) by linarith
  have "Min (insert 0 S) = min 0 (Min S)" using assms(1) ne by (rule Min.insert)
  also have "\<dots> = Min S" using le by (rule min_absorb2)
  finally show ?thesis .
qed

section \<open>The scoring pass\<close>

lemma recalculate_loop_step:
  assumes "target_conf m = None"
    and "p_partition_sum m = Some zs" and "p_nativeEs m = Some es"
    and "p_folded m = Some fs" and "p_confs m = Some cs"
    and "i < length zs" and "i < length es" and "i < length fs" and "i < length (items cs)"
    and "st = score_genotype fe (temperature m) (interaction_energies m) (genotypes m ! i) fb cl"
    and "l_folded st = Some f"
  shows "recalculate_loop fe cl fb (i # rest) m =
     recalculate_loop fe cl (Some f) rest
       (m\<lparr>p_partition_sum := Some (zs[i := l_z st]),
          p_nativeEs := Some (es[i := l_min_energy st]),
          p_folded := Some (fs[i := f]),
          p_confs := Some (cs\<lparr>items := (items cs)[i := take (width cs) (l_min_conf st)]\<rparr>)\<rparr>)"
  using assms by (simp add: Let_def)

lemma recalculate_loop_unbound:
  assumes "target_conf m = None"
    and "p_partition_sum m = Some zs" and "p_nativeEs m = Some es"
    and "i < length zs" and "i < length es"
    and "l_folded (score_genotype fe (temperature m) (interaction_energies m) (genotypes m ! i) fb cl) = None"
  shows "recalculate_loop fe cl fb (i # rest) m = Inl UnboundLocalError"
  using assms by (simp add: Let_def)

lemma recalculate_loop_result:
  assumes "target_conf m = None"
    and "p_partition_sum m = Some zs" and "p_nativeEs m = Some es"
    and "p_folded m = Some fs" and "p_confs m = Some cs"
    and "\<forall>i \<in> set todo. i < length zs \<and> i < length es \<and> i < length fs \<and> i < length (items cs)"
    and "distinct todo"
    and "fb \<noteq> None \<or> todo = [] \<or>
         (\<exists>c \<in> set cl. fe (genotypes m ! hd todo) c (interaction_energies m) \<le> 0)"
  shows "\<exists>m' zs' es' fs' cs'. recalculate_loop fe cl fb todo m = Inr m'
      \<and> genotypes m' = genotypes m \<and> temperature m' = temperature m
      \<and> interaction_energies m' = interaction_energies m \<and> target_conf m' = None
      \<and> p_partition_sum m' = Some zs' \<and> p_nativeEs m' = Some es'
      \<and> p_folded m' = Some fs' \<and> p_confs m' = Some cs'
      \<and> length zs' = length zs \<and> length es' = length es \<and> length fs' = length fs
      \<and> length (items cs') = length (items cs) \<and> width cs' = width cs
      \<and> (\<forall>j. j \<notin> set todo \<longrightarrow>
            zs' ! j = zs ! j \<and> es' ! j = es ! j \<and> fs' ! j = fs ! j \<and> items cs' ! j = items cs ! j)
      \<and> (\<forall>i \<in> set todo. \<exists>fb'.
            zs' ! i = l_z (score_genotype fe (temperature m) (interaction_energies m) (genotypes m ! i) fb' cl)
          \<and> es' ! i = l_min_energy (score_genotype fe (temperature m) (interaction_energies m) (genotypes m ! i) fb' cl)
          \<and> l_folded (score_genotype fe (temperature m) (interaction_energies m) (genotypes m ! i) fb' cl) = Some (fs' ! i)
          \<and> items cs' ! i = take (width cs) (l_min_conf (score_genotype fe (temperature m) (interaction_energies m) (genotypes m ! i) fb' cl)))"
  using assms
proof (induction todo arbitrary: m zs es fs cs fb)
  case Nil
  then show ?case by simp
next
  case (Cons i rest)
  let ?st = "score_genotype fe (temperature m) (interaction_energies m) (genotypes m ! i) fb cl"
  have rng: "i < length zs" "i < length es" "i < length fs" "i < length (items cs)"
    using Cons.prems(6) by simp_all
  obtain f where f: "l_folded ?st = Some f"
    using score_genotype_folded_Some [of fb cl fe "genotypes m ! i" "interaction_energies m" "temperature m"]
      Cons.prems(8) by auto
  let ?zs = "zs[i := l_z ?st]" and ?es = "es[i := l_min_energy ?st]" and ?fs = "fs[i := f]"
    and ?cs = "cs\<lparr>items := (items cs)[i := take (width cs) (l_min_conf ?st)]\<rparr>"
  let ?m = "m\<lparr>p_partition_sum := Some ?zs, p_nativeEs := Some ?es,
               p_folded := Some ?fs, p_confs := Some ?cs\<rparr>"
  have step: "recalculate_loop fe cl fb (i # rest) m = recalculate_loop fe cl (Some f) rest ?m"
    by (rule recalculate_loop_step [OF Cons.prems(1-5) rng refl f])
  have "\<exists>m' zs' es' fs' cs'. recalculate_loop fe cl (Some f) rest ?m = Inr m'
      \<and> genotypes m' = genotypes ?m \<and> temperature m' = temperature ?m
      \<and> interaction_energies m' = interaction_energies ?m \<and> target_conf m' = None
      \<and> p_partition_sum m' = Some zs' \<and> p_nativeEs m' = Some es'
      \<and> p_folded m' = Some fs' \<and> p_confs m' = Some cs'
      \<and> length zs' = length ?zs \<and> length es' = length ?es \<and> length fs' = length ?fs
      \<and> length (items cs') = length (items ?cs) \<and> width cs' = width ?cs
      \<and> (\<forall>j. j \<notin> set rest \<longrightarrow>
            zs' ! j = ?zs ! j \<and> es' ! j = ?es ! j \<and> fs' ! j = ?fs ! j \<and> items cs' ! j = items ?cs ! j)
      \<and> (\<forall>i \<in> set rest. \<exists>fb'.
            zs' ! i = l_z (score_genotype fe (temperature ?m) (interaction_energies ?m) (genotypes ?m ! i) fb' cl)
          \<and> es' ! i = l_min_energy (score_genotype fe (temperature ?m) (interaction_energies ?m) (genotypes ?m ! i) fb' cl)
          \<and> l_folded (score_genotype fe (temperature ?m) (interaction_energies ?m) (genotypes ?m ! i) fb' cl) = Some (fs' ! i)
          \<and> items cs' ! i = take (width ?cs) (l_min_conf (score_genotype fe (temperature ?m) (interaction_energies ?m) (genotypes ?m ! i) fb' cl)))"
  proof (rule Cons.IH)
    show "target_conf ?m = None" using Cons.prems(1) by simp
    show "p_partition_sum ?m = Some ?zs" "p_nativeEs ?m = Some ?es"
      "p_folded ?m = Some ?fs" "p_confs ?m = Some ?cs" by simp_all
    show "\<forall>i \<in> set rest. i < length ?zs \<and> i < length ?es \<and> i < length ?fs \<and> i < length (items ?cs)"
      using Cons.prems(6) by simp
    show "distinct rest" using Cons.prems(7) by simp
    show "Some f \<noteq> None \<or> rest = [] \<or>
         (\<exists>c \<in> set cl. fe (genotypes ?m ! hd rest) c (interaction_energies ?m) \<le> 0)" by simp
  qed
  then obtain m' zs' es' fs' cs' where res:
    "recalculate_loop fe cl (Some f) rest ?m = Inr m'"
    "genotypes m' = genotypes m" "temperature m' = temperature m"
    "interaction_energies m' = interaction_energies m" "target_conf m' = None"
    "p_partition_sum m' = Some zs'" "p_nativeEs m' = Some es'"
    "p_folded m' = Some fs'" "p_confs m' = Some cs'"
    "length zs' = length zs" "length es' = length es" "length fs' = length fs"
    "length (items cs') = length (items cs)" "width cs' = width cs"
    and frame: "\<And>j. j \<notin> set rest \<Longrightarrow>
            zs' ! j = ?zs ! j \<and> es' ! j = ?es ! j \<and> fs' ! j = ?fs ! j \<and> items cs' ! j = items ?cs ! j"
    and scored: "\<And>k. k \<in> set rest \<Longrightarrow> \<exists>fb'.
            zs' ! k = l_z (score_genotype fe (temperature m) (interaction_energies m) (genotypes m ! k) fb' cl)
          \<and> es' ! k = l_min_energy (score_genotype fe (temperature m) (interaction_energies m) (genotypes m ! k) fb' cl)
          \<and> l_folded (score_genotype fe (temperature m) (interaction_energies m) (genotypes m ! k) fb' cl) = Some (fs' ! k)
          \<and> items cs' ! k = take (width cs) (l_min_conf (score_genotype fe (temperature m) (interaction_energies m) (genotypes m ! k) fb' cl))"
    by (simp; blast)
  have inotin: "i \<notin> set rest" using Cons.prems(7) by simp
  have here: "zs' ! i = l_z ?st \<and> es' ! i = l_min_energy ?st \<and> l_folded ?st = Some (fs' ! i)
      \<and> items cs' ! i = take (width cs) (l_min_conf ?st)"
    using frame [OF inotin] rng f by simp
  have all_scored: "\<forall>k \<in> set (i # rest). \<exists>fb'.
            zs' ! k = l_z (score_genotype fe (temperature m) (interaction_energies m) (genotypes m ! k) fb' cl)
          \<and> es' ! k = l_min_energy (score_genotype fe (temperature m) (interaction_energies m) (genotypes m ! k) fb' cl)
          \<and> l_folded (score_genotype fe (temperature m) (interaction_energies m) (genotypes m ! k) fb' cl) = Some (fs' ! k)
          \<and> items cs' ! k = take (width cs) (l_min_conf (score_genotype fe (temperature m) (interaction_energies m) (genotypes m ! k) fb' cl))"
  proof
    fix k assume "k \<in> set (i # rest)"
    then consider "k = i" | "k \<in> set rest" by auto
    then show "\<exists>fb'.
            zs' ! k = l_z (score_genotype fe (temperature m) (interaction_energies m) (genotypes m ! k) fb' cl)
          \<and> es' ! k = l_min_energy (score_genotype fe (temperature m) (interaction_energies m) (genotypes m ! k) fb' cl)
          \<and> l_folded (score_genotype fe (temperature m) (interaction_energies m) (genotypes m ! k) fb' cl) = Some (fs' ! k)
          \<and> items cs' ! k = take (width cs) (l_min_conf (score_genotype fe (temperature m) (interaction_energies m) (genotypes m ! k) fb' cl))"
    proof cases
      case 1
      then show ?thesis using here by blast
    next
      case 2
      then show ?thesis by (rule scored)
    qed
  qed
  have all_frame: "\<forall>j. j \<notin> set (i # rest) \<longrightarrow>
            zs' ! j = zs ! j \<and> es' ! j = es ! j \<and> fs' ! j = fs ! j \<and> items cs' ! j = items cs ! j"
    using frame by simp
  show ?case
    unfolding step
    using res all_frame all_scored by blast
qed

lemma allocatedE:
  assumes "allocated m"
  obtains zs es fs cs where "p_partition_sum m = Some zs" and "p_nativeEs m = Some es"
    and "p_folded m = Some fs" and "p_confs m = Some cs"
    and "length zs = gpm_n m" and "length es = gpm_n m" and "length fs = gpm_n m"
    and "length (items cs) = gpm_n m"
  using assms unfolding allocated_def by (auto simp: map_option_case split: option.splits)

lemma recalculate_partition_sum_result:
  assumes alloc: "allocated m" and tc: "target_conf m = None"
    and first: "gpm_n m = 0 \<or> (\<exists>c \<in> set cl. fe (genotypes m ! 0) c (interaction_energies m) \<le> 0)"
    and cs: "p_confs m = Some cs"
  shows "\<exists>m' zs' es' fs' cs'. recalculate_partition_sum fe m cl = Inr m'
      \<and> p_partition_sum m' = Some zs' \<and> p_nativeEs m' = Some es'
      \<and> p_folded m' = Some fs' \<and> p_confs m' = Some cs'
      \<and> length zs' = gpm_n m \<and> length es' = gpm_n m \<and> length fs' = gpm_n m
      \<and> length (items cs') = gpm_n m
      \<and> (\<forall>i < gpm_n m. \<exists>fb'.
            zs' ! i = l_z (score_genotype fe (temperature m) (interaction_energies m) (genotypes m ! i) fb' cl)
          \<and> es' ! i = l_min_energy (score_genotype fe (temperature m) (interaction_energies m) (genotypes m ! i) fb' cl)
          \<and> l_folded (score_genotype fe (temperature m) (interaction_energies m) (genotypes m ! i) fb' cl) = Some (fs' ! i)
          \<and> items cs' ! i = take (width cs) (l_min_conf (score_genotype fe (temperature m) (interaction_energies m) (genotypes m ! i) fb' cl)))"
proof -
  from alloc obtain zs es fs cs0 where arr:
    "p_partition_sum m = Some zs" "p_nativeEs m = Some es" "p_folded m = Some fs" "p_confs m = Some cs0"
    and len: "length zs = gpm_n m" "length es = gpm_n m" "length fs = gpm_n m"
      "length (items cs0) = gpm_n m"
    by (rule allocatedE)
  have cs0: "cs0 = cs" using arr(4) cs by simp
  let ?m = "m\<lparr>partition_confs := Some cl\<rparr>"
  let ?todo = "[0..<gpm_n m]"
  have start: "None \<noteq> (None :: bool option) \<or> ?todo = [] \<or>
      (\<exists>c \<in> set cl. fe (genotypes ?m ! hd ?todo) c (interaction_energies ?m) \<le> 0)"
    using first by (cases "gpm_n m = 0") (simp_all add: hd_upt)
  have "\<exists>m' zs' es' fs' cs'. recalculate_loop fe cl None ?todo ?m = Inr m'
      \<and> genotypes m' = genotypes ?m \<and> temperature m' = temperature ?m
      \<and> interaction_energies m' = interaction_energies ?m \<and> target_conf m' = None
      \<and> p_partition_sum m' = Some zs' \<and> p_nativeEs m' = Some es'
      \<and> p_folded m' = Some fs' \<and> p_confs m' = Some cs'
      \<and> length zs' = length zs \<and> length es' = length es \<and> length fs' = length fs
      \<and> length (items cs') = length (items cs) \<and> width cs' = width cs
      \<and> (\<forall>j. j \<notin> set ?todo \<longrightarrow>
            zs' ! j = zs ! j \<and> es' ! j = es ! j \<and> fs' ! j = fs ! j \<and> items cs' ! j = items cs ! j)
      \<and> (\<forall>i \<in> set ?todo. \<exists>fb'.
            zs' ! i = l_z (score_genotype fe (temperature ?m) (interaction_energies ?m) (genotypes ?m ! i) fb' cl)
          \<and> es' ! i = l_min_energy (score_genotype fe (temperature ?m) (interaction_energies ?m) (genotypes ?m ! i) fb' cl)
          \<and> l_folded (score_genotype fe (temperature ?m) (interaction_energies ?m) (genotypes ?m ! i) fb' cl) = Some (fs' ! i)
          \<and> items cs' ! i = take (width cs) (l_min_conf (score_genotype fe (temperature ?m) (interaction_energies ?m) (genotypes ?m ! i) fb' cl)))"
  proof (rule recalculate_loop_result)
    show "target_conf ?m = None" using tc by simp
    show "p_partition_sum ?m = Some zs" "p_nativeEs ?m = Some es" "p_folded ?m = Some fs"
      "p_confs ?m = Some cs" using arr cs0 by simp_all
    show "\<forall>i \<in> set ?todo. i < length zs \<and> i < length es \<and> i < length fs \<and> i < length (items cs)"
      using len cs0 by simp
    show "distinct ?todo" by simp
    show "None \<noteq> (None :: bool option) \<or> ?todo = [] \<or>
      (\<exists>c \<in> set cl. fe (genotypes ?m ! hd ?todo) c (interaction_energies ?m) \<le> 0)" by (rule start)
  qed
  then obtain m' zs' es' fs' cs' where run: "recalculate_loop fe cl None ?todo ?m = Inr m'"
    and arr': "p_partition_sum m' = Some zs'" "p_nativeEs m' = Some es'"
      "p_folded m' = Some fs'" "p_confs m' = Some cs'"
    and len': "length zs' = length zs" "length es' = length es" "length fs' = length fs"
      "length (items cs') = length (items cs)"
    and scored: "\<forall>i \<in> set ?todo. \<exists>fb'.
            zs' ! i = l_z (score_genotype fe (temperature ?m) (interaction_energies ?m) (genotypes ?m ! i) fb' cl)
          \<and> es' ! i = l_min_energy (score_genotype fe (temperature ?m) (interaction_energies ?m) (genotypes ?m ! i) fb' cl)
          \<and> l_folded (score_genotype fe (temperature ?m) (interaction_energies ?m) (genotypes ?m ! i) fb' cl) = Some (fs' ! i)
          \<and> items cs' ! i = take (width cs) (l_min_conf (score_genotype fe (temperature ?m) (interaction_energies ?m) (genotypes ?m ! i) fb' cl))"
    by blast
  have run': "recalculate_partition_sum fe m cl = Inr m'"
    using run by (simp add: recalculate_partition_sum_def)
  have scored': "\<forall>i < gpm_n m. \<exists>fb'.
            zs' ! i = l_z (score_genotype fe (temperature m) (interaction_energies m) (genotypes m ! i) fb' cl)
          \<and> es' ! i = l_min_energy (score_genotype fe (temperature m) (interaction_energies m) (genotypes m ! i) fb' cl)
          \<and> l_folded (score_genotype fe (temperature m) (interaction_energies m) (genotypes m ! i) fb' cl) = Some (fs' ! i)
          \<and> items cs' ! i = take (width cs) (l_min_conf (score_genotype fe (temperature m) (interaction_energies m) (genotypes m ! i) fb' cl))"
    using scored by simp
  have lens: "length zs' = gpm_n m" "length es' = gpm_n m" "length fs' = gpm_n m"
    "length (items cs') = gpm_n m"
    using len len' cs0 by simp_all
  show ?thesis
    using run' arr' lens scored' by blast
qed

lemma recalculate_loop_target_step:
  assumes "target_conf m = Some t" and "p_partition_sum m = Some zs" and "i < length zs"
  shows "recalculate_loop fe cl fb (i # rest) m =
     recalculate_loop fe cl
       (l_folded (score_genotype fe (temperature m) (interaction_energies m) (genotypes m ! i) fb cl))
       rest
       (m\<lparr>p_partition_sum := Some (zs[i := l_z (score_genotype fe (temperature m)
           (interaction_energies m) (genotypes m ! i) fb cl)])\<rparr>)"
  using assms by (simp add: Let_def)

lemma recalculate_loop_target:
  assumes "target_conf m = Some t" and "p_partition_sum m = Some zs"
    and "\<forall>i \<in> set todo. i < length zs" and "distinct todo"
  shows "\<exists>m' zs'. recalculate_loop fe cl fb todo m = Inr m'
      \<and> p_partition_sum m' = Some zs' \<and> length zs' = length zs
      \<and> genotypes m' = genotypes m \<and> temperature m' = temperature m
      \<and> interaction_energies m' = interaction_energies m \<and> target_conf m' = target_conf m
      \<and> p_nativeEs m' = p_nativeEs m \<and> p_folded m' = p_folded m \<and> p_confs m' = p_confs m
      \<and> (\<forall>j. j \<notin> set todo \<longrightarrow> zs' ! j = zs ! j)
      \<and> (\<forall>i \<in> set todo. zs' ! i =
            (\<Sum>c\<leftarrow>cl. exp (- fe (genotypes m ! i) c (interaction_energies m) / temperature m)))"
  using assms
proof (induction todo arbitrary: m zs fb)
  case Nil
  then show ?case by simp
next
  case (Cons i rest)
  let ?st = "score_genotype fe (temperature m) (interaction_energies m) (genotypes m ! i) fb cl"
  let ?zs = "zs[i := l_z ?st]"
  let ?m = "m\<lparr>p_partition_sum := Some ?zs\<rparr>"
  have i: "i < length zs" using Cons.prems(3) by simp
  have step: "recalculate_loop fe cl fb (i # rest) m = recalculate_loop fe cl (l_folded ?st) rest ?m"
    by (rule recalculate_loop_target_step [OF Cons.prems(1,2) i])
  have "\<exists>m' zs'. recalculate_loop fe cl (l_folded ?st) rest ?m = Inr m'
      \<and> p_partition_sum m' = Some zs' \<and> length zs' = length ?zs
      \<and> genotypes m' = genotypes ?m \<and> temperature m' = temperature ?m
      \<and> interaction_energies m' = interaction_energies ?m \<and> target_conf m' = target_conf ?m
      \<and> p_nativeEs m' = p_nativeEs ?m \<and> p_folded m' = p_folded ?m \<and> p_confs m' = p_confs ?m
      \<and> (\<forall>j. j \<notin> set rest \<longrightarrow> zs' ! j = ?zs ! j)
      \<and> (\<forall>i \<in> set rest. zs' ! i =
            (\<Sum>c\<leftarrow>cl. exp (- fe (genotypes ?m ! i) c (interaction_energies ?m) / temperature ?m)))"
  proof (rule Cons.IH)
    show "target_conf ?m = Some t" using Cons.prems(1) by simp
    show "p_partition_sum ?m = Some ?zs" by simp
    show "\<forall>i \<in> set rest. i < length ?zs" using Cons.prems(3) by simp
    show "distinct rest" using Cons.prems(4) by simp
  qed
  then obtain m' zs' where res: "recalculate_loop fe cl (l_folded ?st) rest ?m = Inr m'"
      "p_partition_sum m' = Some zs'" "length zs' = length zs"
      "genotypes m' = genotypes m" "temperature m' = temperature m"
      "interaction_energies m' = interaction_energies m" "target_conf m' = target_conf m"
      "p_nativeEs m' = p_nativeEs m" "p_folded m' = p_folded m" "p_confs m' = p_confs m"
    and frame: "\<And>j. j \<notin> set rest \<Longrightarrow> zs' ! j = ?zs ! j"
    and scored: "\<And>k. k \<in> set rest \<Longrightarrow> zs' ! k =
            (\<Sum>c\<leftarrow>cl. exp (- fe (genotypes m ! k) c (interaction_energies m) / temperature m))"
    by (simp; blast)
  have inotin: "i \<notin> set rest" using Cons.prems(4) by simp
  have here: "zs' ! i = (\<Sum>c\<leftarrow>cl. exp (- fe (genotypes m ! i) c (interaction_energies m) / temperature m))"
    using frame [OF inotin] i by (simp add: score_genotype_z)
  have all_scored: "\<forall>k \<in> set (i # rest). zs' ! k =
            (\<Sum>c\<leftarrow>cl. exp (- fe (genotypes m ! k) c (interaction_energies m) / temperature m))"
    using here scored by auto
  have all_frame: "\<forall>j. j \<notin> set (i # rest) \<longrightarrow> zs' ! j = zs ! j"
    using frame by simp
  show ?case
    unfolding step
    using res all_frame all_scored by blast
qed

lemma recalculate_partition_sum_target:
  assumes alloc: "allocated m" and tc: "target_conf m = Some t"
  shows "\<exists>m' zs'. recalculate_partition_sum fe m cl = Inr m'
      \<and> p_partition_sum m' = Some zs' \<and> length zs' = gpm_n m
      \<and> p_nativeEs m' = p_nativeEs m \<and> p_folded m' = p_folded m \<and> p_confs m' = p_confs m
      \<and> (\<forall>i < gpm_n m. zs' ! i =
            (\<Sum>c\<leftarrow>cl. exp (- fe (genotypes m ! i) c (interaction_energies m) / temperature m)))"
proof -
  from alloc obtain zs where zs: "p_partition_sum m = Some zs" and len: "length zs = gpm_n m"
    by (rule allocatedE)
  let ?m = "m\<lparr>partition_confs := Some cl\<rparr>"
  let ?todo = "[0..<gpm_n m]"
  have "\<exists>m' zs'. recalculate_loop fe cl None ?todo ?m = Inr m'
      \<and> p_partition_sum m' = Some zs' \<and> length zs' = length zs
      \<and> genotypes m' = genotypes ?m \<and> temperature m' = temperature ?m
      \<and> interaction_energies m' = interaction_energies ?m \<and> target_conf m' = target_conf ?m
      \<and> p_nativeEs m' = p_nativeEs ?m \<and> p_folded m' = p_folded ?m \<and> p_confs m' = p_confs ?m
      \<and> (\<forall>j. j \<notin> set ?todo \<longrightarrow> zs' ! j = zs ! j)
      \<and> (\<forall>i \<in> set ?todo. zs' ! i =
            (\<Sum>c\<leftarrow>cl. exp (- fe (genotypes ?m ! i) c (interaction_energies ?m) / temperature ?m)))"
  proof (rule recalculate_loop_target)
    show "target_conf ?m = Some t" using tc by simp
    show "p_partition_sum ?m = Some zs" using zs by simp
    show "\<forall>i \<in> set ?todo. i < length zs" using len by simp
    show "distinct ?todo" by simp
  qed
  then obtain m' zs' where run: "recalculate_loop fe cl None ?todo ?m = Inr m'"
    and res: "p_partition_sum m' = Some zs'" "length zs' = length zs"
      "p_nativeEs m' = p_nativeEs ?m" "p_folded m' = p_folded ?m" "p_confs m' = p_confs ?m"
    and scored: "\<forall>i \<in> set ?todo. zs' ! i =
            (\<Sum>c\<leftarrow>cl. exp (- fe (genotypes ?m ! i) c (interaction_energies ?m) / temperature ?m))"
    by blast
  have run': "recalculate_partition_sum fe m cl = Inr m'"
    using run by (simp add: recalculate_partition_sum_def)
  have scored': "\<forall>i < gpm_n m. zs' ! i =
            (\<Sum>c\<leftarrow>cl. exp (- fe (genotypes m ! i) c (interaction_energies m) / temperature m))"
    using scored by simp
  show ?thesis
    using run' res len scored' by simp
qed

section \<open>What the scoring pass stores\<close>

text \<open>
  Claim C10. With no target conformation set, on a map with at least one genotype whose
  first genotype has only strictly positive fold energies over the list, the scoring pass
  reads the local variable \<^verbatim>\<open>folded\<close> before any assignment and ends in
  \<open>UnboundLocalError\<close>, with no record produced.
\<close>

theorem recalculate_partition_sum_unbound_folded:
  assumes alloc: "allocated m" and tc: "target_conf m = None"
    and ne: "genotypes m \<noteq> []" and T: "temperature m \<noteq> 0"
    and pos: "\<forall>c \<in> set conf_list. 0 < fold_energy (genotypes m ! 0) c (interaction_energies m)"
  shows "recalculate_partition_sum fold_energy m conf_list = Inl UnboundLocalError"
proof -
  from alloc obtain zs es fs cs where arr:
    "p_partition_sum m = Some zs" "p_nativeEs m = Some es"
    and len: "length zs = gpm_n m" "length es = gpm_n m"
    by (rule allocatedE)
  have n: "0 < gpm_n m" using ne by (simp add: gpm_n_def)
  let ?m = "m\<lparr>partition_confs := Some conf_list\<rparr>"
  have todo: "[0..<gpm_n m] = 0 # [1..<gpm_n m]" using n by (simp add: upt_conv_Cons)
  have unbound: "l_folded (score_genotype fold_energy (temperature ?m) (interaction_energies ?m)
      (genotypes ?m ! 0) None conf_list) = None"
    using pos by (auto simp: score_genotype_folded not_le)
  have "recalculate_loop fold_energy conf_list None (0 # [1..<gpm_n m]) ?m = Inl UnboundLocalError"
  proof (rule recalculate_loop_unbound [OF _ _ _ _ _ unbound])
    show "target_conf ?m = None" using tc by simp
    show "p_partition_sum ?m = Some zs" "p_nativeEs ?m = Some es" using arr by simp_all
    show "0 < length zs" "0 < length es" using n len by simp_all
  qed
  then show ?thesis by (simp only: recalculate_partition_sum_def todo)
qed

theorem recalculate_partition_sum_unbound_folded_witness:
  "allocated (example_gpm [''AB'']) \<and> target_conf (example_gpm [''AB'']) = None
   \<and> genotypes (example_gpm [''AB'']) \<noteq> [] \<and> temperature (example_gpm [''AB'']) \<noteq> 0
   \<and> (0::real) < 1
   \<and> recalculate_partition_sum (\<lambda>g c t. 1) (example_gpm [''AB'']) [''U'', ''R'']
        = Inl UnboundLocalError"
proof -
  have h: "target_conf (example_gpm [''AB'']) = None" "genotypes (example_gpm [''AB'']) \<noteq> []"
    "temperature (example_gpm [''AB'']) \<noteq> 0"
    by (simp_all add: example_gpm_def)
  have pos: "\<forall>c \<in> set [''U'', ''R'']. 0 < (\<lambda>g c t. 1::real) (genotypes (example_gpm [''AB'']) ! 0) c
      (interaction_energies (example_gpm [''AB'']))" by simp
  show ?thesis
    using h example_allocated [of "[''AB'']"]
      recalculate_partition_sum_unbound_folded [OF example_allocated h pos]
    by simp
qed

text \<open>
  Claim C2, as the code has it. With no target conformation set, and the first genotype
  having a conformation of energy at most zero (so that the pass does not stop as in C10),
  the pass completes and for every genotype the stored native energy is the minimum of zero
  and the fold energies over the list: the unfolded state of energy zero, with the empty
  conformation, takes part in the search. Where some conformation of the list has negative
  energy, the stored energy is the minimum over the list and the stored conformation is a
  conformation of the list with that energy; otherwise zero and the empty conformation are
  stored. (The conformations of the list are taken to fit the width of the array of
  conformations.)
\<close>

theorem recalculate_partition_sum_native_state:
  assumes alloc: "allocated m" and tc: "target_conf m = None" and T: "temperature m \<noteq> 0"
    and cs: "p_confs m = Some cs" and fit: "\<forall>c \<in> set cl. length c \<le> width cs"
    and first: "\<exists>c \<in> set cl. fe (genotypes m ! 0) c (interaction_energies m) \<le> 0"
    and i: "i < gpm_n m"
  shows "\<exists>m' es' cs'. recalculate_partition_sum fe m cl = Inr m'
      \<and> nativeEs m' = Inr es' \<and> confs m' = Inr cs'
      \<and> es' ! i = Min (insert 0 ((\<lambda>c. fe (genotypes m ! i) c (interaction_energies m)) ` set cl))
      \<and> (if \<exists>c \<in> set cl. fe (genotypes m ! i) c (interaction_energies m) < 0
         then es' ! i = Min ((\<lambda>c. fe (genotypes m ! i) c (interaction_energies m)) ` set cl)
            \<and> items cs' ! i \<in> set cl
            \<and> fe (genotypes m ! i) (items cs' ! i) (interaction_energies m) =
                Min ((\<lambda>c. fe (genotypes m ! i) c (interaction_energies m)) ` set cl)
         else es' ! i = 0 \<and> items cs' ! i = [])"
proof -
  let ?e = "\<lambda>c. fe (genotypes m ! i) c (interaction_energies m)"
  have start: "gpm_n m = 0 \<or> (\<exists>c \<in> set cl. fe (genotypes m ! 0) c (interaction_energies m) \<le> 0)"
    using first by simp
  from recalculate_partition_sum_result [where fe = fe and cl = cl, OF alloc tc start cs]
  obtain m' zs' es' fs' cs' where run: "recalculate_partition_sum fe m cl = Inr m'"
    and arr: "p_nativeEs m' = Some es'" "p_confs m' = Some cs'"
    and scored: "\<forall>i < gpm_n m. \<exists>fb'.
            zs' ! i = l_z (score_genotype fe (temperature m) (interaction_energies m) (genotypes m ! i) fb' cl)
          \<and> es' ! i = l_min_energy (score_genotype fe (temperature m) (interaction_energies m) (genotypes m ! i) fb' cl)
          \<and> l_folded (score_genotype fe (temperature m) (interaction_energies m) (genotypes m ! i) fb' cl) = Some (fs' ! i)
          \<and> items cs' ! i = take (width cs) (l_min_conf (score_genotype fe (temperature m) (interaction_energies m) (genotypes m ! i) fb' cl))"
    by blast
  from scored i obtain fb' where
    e: "es' ! i = l_min_energy (score_genotype fe (temperature m) (interaction_energies m) (genotypes m ! i) fb' cl)"
    and c: "items cs' ! i = take (width cs) (l_min_conf (score_genotype fe (temperature m) (interaction_energies m) (genotypes m ! i) fb' cl))"
    by blast
  let ?st = "score_genotype fe (temperature m) (interaction_energies m) (genotypes m ! i) fb' cl"
  have props: "nativeEs m' = Inr es'" "confs m' = Inr cs'"
    using arr by (simp_all add: nativeEs_def confs_def)
  have min0: "es' ! i = Min (insert 0 (?e ` set cl))"
    using e by (simp add: score_genotype_min_energy)
  have branch: "if \<exists>c \<in> set cl. ?e c < 0
         then es' ! i = Min (?e ` set cl) \<and> items cs' ! i \<in> set cl
            \<and> ?e (items cs' ! i) = Min (?e ` set cl)
         else es' ! i = 0 \<and> items cs' ! i = []"
  proof (cases "\<exists>c \<in> set cl. ?e c < 0")
    case True
    then obtain c0 where c0: "c0 \<in> set cl" "?e c0 < 0" by blast
    have c0in: "?e c0 \<in> ?e ` set cl" using c0(1) by (rule imageI)
    have c0le: "?e c0 \<le> 0" using c0(2) by simp
    have min: "l_min_energy ?st = Min (?e ` set cl)"
      unfolding score_genotype_min_energy
      by (rule Min_insert0_nonpos [OF _ c0in c0le]) simp
    have "Min (?e ` set cl) \<le> ?e c0" using c0(1) by simp
    then have lt: "l_min_energy ?st < 0" using min c0(2) by linarith
    have conf: "l_min_conf ?st \<in> set cl" "?e (l_min_conf ?st) = l_min_energy ?st"
      using score_genotype_min_conf [of fe "temperature m" "interaction_energies m" "genotypes m ! i" fb' cl] lt
      by simp_all
    have stored: "items cs' ! i = l_min_conf ?st"
      using c conf(1) fit by simp
    show ?thesis using True e min conf stored by simp
  next
    case False
    then have ge: "\<forall>c \<in> set cl. 0 \<le> ?e c" by (auto simp: not_less)
    have "Min (insert 0 (?e ` set cl)) = 0"
      by (rule Min_eqI) (use ge in auto)
    then have zero: "l_min_energy ?st = 0" by (simp add: score_genotype_min_energy)
    then have "l_min_conf ?st = []"
      using score_genotype_min_conf [of fe "temperature m" "interaction_energies m" "genotypes m ! i" fb' cl]
      by simp
    then show ?thesis using False e zero c by simp
  qed
  show ?thesis
    using run props min0 branch
    by (intro exI [of _ m'] exI [of _ es'] exI [of _ cs'] conjI)
qed

theorem recalculate_partition_sum_native_state_witness:
  "allocated (example_gpm [''AB'']) \<and> target_conf (example_gpm [''AB'']) = None
   \<and> temperature (example_gpm [''AB'']) \<noteq> 0
   \<and> p_confs (example_gpm [''AB'']) = Some \<lparr>width = 1, items = [[]]\<rparr>
   \<and> (0::nat) < gpm_n (example_gpm [''AB''])
   \<and> (\<exists>m' es' cs'.
        recalculate_partition_sum (\<lambda>g c t. if c = ''U'' then - 1 else - 3)
          (example_gpm [''AB'']) [''U'', ''R''] = Inr m'
        \<and> nativeEs m' = Inr es' \<and> confs m' = Inr cs'
        \<and> es' ! 0 = - 3 \<and> items cs' ! 0 = ''R'')"
proof -
  let ?m = "example_gpm [''AB'']"
  let ?fe = "\<lambda>(g::string) (c::string) (t::unit). if c = ''U'' then - 1 else (- 3::real)"
  have tc: "target_conf ?m = None" and T: "temperature ?m \<noteq> 0"
    and cs: "p_confs ?m = Some \<lparr>width = 1, items = [[]]\<rparr>"
    and i: "0 < gpm_n ?m"
    by (simp_all add: example_gpm_def gpm_n_def)
  have fit: "\<forall>c \<in> set [''U'', ''R'']. length c \<le> width \<lparr>width = 1, items = [[]]\<rparr>" by simp
  have first: "\<exists>c \<in> set [''U'', ''R'']. ?fe (genotypes ?m ! 0) c (interaction_energies ?m) \<le> 0"
    by simp
  have neg: "\<exists>c \<in> set [''U'', ''R'']. ?fe (genotypes ?m ! 0) c (interaction_energies ?m) < 0"
    by simp
  have neg_if: "\<And>P Q. (if \<exists>c \<in> set [''U'', ''R'']. ?fe (genotypes ?m ! 0) c (interaction_energies ?m) < 0
      then P else Q) = P"
    using neg by simp
  have min: "Min ((\<lambda>c. ?fe (genotypes ?m ! 0) c (interaction_energies ?m)) ` set [''U'', ''R'']) = - 3"
    by simp
  from recalculate_partition_sum_native_state
    [where fe = ?fe and cl = "[''U'', ''R'']", OF example_allocated tc T cs fit first i]
  obtain m' es' cs' where
    "recalculate_partition_sum ?fe ?m [''U'', ''R''] = Inr m'"
    "nativeEs m' = Inr es'" "confs m' = Inr cs'" "es' ! 0 = - 3"
    "items cs' ! 0 \<in> set [''U'', ''R'']"
    "?fe (genotypes ?m ! 0) (items cs' ! 0) (interaction_energies ?m) = - 3"
    unfolding neg_if min by blast
  moreover from this have "items cs' ! 0 = ''R''" by (auto split: if_splits)
  ultimately show ?thesis
    using example_allocated [of "[''AB'']"] tc T cs i by blast
qed

text \<open>
  The claim as stated, with the minimum taken over the list alone, fails: for a single
  conformation of energy zero the stored conformation is the empty one, which is not in the
  list; and for a second genotype whose only conformation has energy one the stored native
  energy is zero.
\<close>

theorem recalculate_partition_sum_native_state_counterexample:
  "(\<exists>m' cs'. recalculate_partition_sum (\<lambda>g c t. 0) (example_gpm [''AB'']) [''U''] = Inr m'
       \<and> nativeEs m' = Inr [0] \<and> confs m' = Inr cs' \<and> items cs' = [[]] \<and> [] \<notin> set [''U''])
   \<and> (\<exists>m'. recalculate_partition_sum (\<lambda>g c t. if g = ''AB'' then - 1 else 1)
              (example_gpm [''AB'', ''CD'']) [''U''] = Inr m'
       \<and> nativeEs m' = Inr [- 1, 0]
       \<and> Min ((\<lambda>c. if ''CD'' = ''AB'' then - 1 else (1::real)) ` set [''U'']) = 1)"
  by (simp add: recalculate_partition_sum_def example_gpm_def gpm_n_def score_genotype_def
        score_conf_def Let_def nativeEs_def confs_def)

text \<open>
  Claim C3, as the code has it. A scoring pass on a map with a target conformation set, or
  with no target conformation and a first genotype that has a conformation of energy at most
  zero, completes, and the partition sum of every genotype is the sum of
  \<open>exp (- energy / temperature)\<close> over the list. With no target conformation set, a
  genotype for which two positions of the list share the minimum energy, that minimum being
  at most zero, is marked not folded, with that minimum stored as its native energy.
\<close>

theorem recalculate_partition_sum_tie:
  assumes alloc: "allocated m" and T: "temperature m \<noteq> 0"
    and first: "target_conf m = None \<longrightarrow>
                  (\<exists>c \<in> set cl. fe (genotypes m ! 0) c (interaction_energies m) \<le> 0)"
  shows "\<exists>m' zs'. recalculate_partition_sum fe m cl = Inr m'
      \<and> partition_sum m' = Inr zs' \<and> length zs' = gpm_n m
      \<and> (\<forall>i < gpm_n m.
            zs' ! i = (\<Sum>c\<leftarrow>cl. exp (- fe (genotypes m ! i) c (interaction_energies m) / temperature m)))
      \<and> (target_conf m = None \<longrightarrow>
           (\<exists>es' fs'. nativeEs m' = Inr es' \<and> folded m' = Inr fs'
              \<and> length es' = gpm_n m \<and> length fs' = gpm_n m
              \<and> (\<forall>i < gpm_n m. \<forall>j k.
                    j < k \<and> k < length cl
                    \<and> fe (genotypes m ! i) (cl ! j) (interaction_energies m) =
                        Min ((\<lambda>c. fe (genotypes m ! i) c (interaction_energies m)) ` set cl)
                    \<and> fe (genotypes m ! i) (cl ! k) (interaction_energies m) =
                        Min ((\<lambda>c. fe (genotypes m ! i) c (interaction_energies m)) ` set cl)
                    \<and> Min ((\<lambda>c. fe (genotypes m ! i) c (interaction_energies m)) ` set cl) \<le> 0
                    \<longrightarrow> fs' ! i = False
                      \<and> es' ! i = Min ((\<lambda>c. fe (genotypes m ! i) c (interaction_energies m)) ` set cl))))"
proof (cases "target_conf m")
  case (Some t)
  from recalculate_partition_sum_target [where fe = fe and cl = cl, OF alloc Some]
  obtain m' zs' where run: "recalculate_partition_sum fe m cl = Inr m'"
    and zs: "p_partition_sum m' = Some zs'" and len: "length zs' = gpm_n m"
    and z: "\<forall>i < gpm_n m. zs' ! i =
            (\<Sum>c\<leftarrow>cl. exp (- fe (genotypes m ! i) c (interaction_energies m) / temperature m))"
    by blast
  have getter: "partition_sum m' = Inr zs'" using zs by (simp add: partition_sum_def)
  show ?thesis
    using run getter len z Some by (intro exI [of _ m'] exI [of _ zs'] conjI) simp_all
next
  case None
  from alloc obtain cs where cs: "p_confs m = Some cs" by (rule allocatedE)
  have start: "gpm_n m = 0 \<or> (\<exists>c \<in> set cl. fe (genotypes m ! 0) c (interaction_energies m) \<le> 0)"
    using first None by simp
  from recalculate_partition_sum_result [where fe = fe and cl = cl, OF alloc None start cs]
  obtain m' zs' es' fs' cs' where run: "recalculate_partition_sum fe m cl = Inr m'"
    and arr: "p_partition_sum m' = Some zs'" "p_nativeEs m' = Some es'" "p_folded m' = Some fs'"
      "p_confs m' = Some cs'"
    and len: "length zs' = gpm_n m" "length es' = gpm_n m" "length fs' = gpm_n m"
      "length (items cs') = gpm_n m"
    and scored: "\<forall>i < gpm_n m. \<exists>fb'.
            zs' ! i = l_z (score_genotype fe (temperature m) (interaction_energies m) (genotypes m ! i) fb' cl)
          \<and> es' ! i = l_min_energy (score_genotype fe (temperature m) (interaction_energies m) (genotypes m ! i) fb' cl)
          \<and> l_folded (score_genotype fe (temperature m) (interaction_energies m) (genotypes m ! i) fb' cl) = Some (fs' ! i)
          \<and> items cs' ! i = take (width cs) (l_min_conf (score_genotype fe (temperature m) (interaction_energies m) (genotypes m ! i) fb' cl))"
    by blast
  have z: "zs' ! i = (\<Sum>c\<leftarrow>cl. exp (- fe (genotypes m ! i) c (interaction_energies m) / temperature m))"
    if "i < gpm_n m" for i
    using scored that by (auto simp: score_genotype_z)
  have tie: "fs' ! i = False
      \<and> es' ! i = Min ((\<lambda>c. fe (genotypes m ! i) c (interaction_energies m)) ` set cl)"
    if i: "i < gpm_n m" and jk: "j < k" "k < length cl"
      and ej: "fe (genotypes m ! i) (cl ! j) (interaction_energies m) =
                Min ((\<lambda>c. fe (genotypes m ! i) c (interaction_energies m)) ` set cl)"
      and ek: "fe (genotypes m ! i) (cl ! k) (interaction_energies m) =
                Min ((\<lambda>c. fe (genotypes m ! i) c (interaction_energies m)) ` set cl)"
      and le: "Min ((\<lambda>c. fe (genotypes m ! i) c (interaction_energies m)) ` set cl) \<le> 0"
    for i j k
  proof -
    let ?e = "\<lambda>c. fe (genotypes m ! i) c (interaction_energies m)"
    from scored i obtain fb' where
      e: "es' ! i = l_min_energy (score_genotype fe (temperature m) (interaction_energies m) (genotypes m ! i) fb' cl)"
      and f: "l_folded (score_genotype fe (temperature m) (interaction_energies m) (genotypes m ! i) fb' cl) = Some (fs' ! i)"
      by blast
    let ?st = "score_genotype fe (temperature m) (interaction_energies m) (genotypes m ! i) fb' cl"
    have kin: "cl ! k \<in> set cl" using jk by simp
    have kin': "?e (cl ! k) \<in> ?e ` set cl" using kin by (rule imageI)
    have kle: "?e (cl ! k) \<le> 0" using ek le by simp
    have min: "l_min_energy ?st = Min (?e ` set cl)"
      unfolding score_genotype_min_energy
      by (rule Min_insert0_nonpos [OF _ kin' kle]) simp
    have two: "2 \<le> length (filter (\<lambda>c. ?e c = l_min_energy ?st) cl)"
      by (rule length_filter_two [OF jk]) (simp_all add: min ej ek)
    have ex: "\<exists>c \<in> set cl. ?e c \<le> 0" using kin kle by (rule bexI [rotated])
    have "l_folded ?st = Some False"
      using two ex by (simp add: score_genotype_folded)
    then show ?thesis using f e min by simp
  qed
  have zall: "\<forall>i < gpm_n m.
      zs' ! i = (\<Sum>c\<leftarrow>cl. exp (- fe (genotypes m ! i) c (interaction_energies m) / temperature m))"
    using z by simp
  have tieall: "\<forall>i < gpm_n m. \<forall>j k.
            j < k \<and> k < length cl
            \<and> fe (genotypes m ! i) (cl ! j) (interaction_energies m) =
                Min ((\<lambda>c. fe (genotypes m ! i) c (interaction_energies m)) ` set cl)
            \<and> fe (genotypes m ! i) (cl ! k) (interaction_energies m) =
                Min ((\<lambda>c. fe (genotypes m ! i) c (interaction_energies m)) ` set cl)
            \<and> Min ((\<lambda>c. fe (genotypes m ! i) c (interaction_energies m)) ` set cl) \<le> 0
            \<longrightarrow> fs' ! i = False
              \<and> es' ! i = Min ((\<lambda>c. fe (genotypes m ! i) c (interaction_energies m)) ` set cl)"
    using tie by blast
  have props: "partition_sum m' = Inr zs'" "nativeEs m' = Inr es'" "folded m' = Inr fs'"
    using arr by (simp_all add: partition_sum_def nativeEs_def folded_def)
  have second: "\<exists>es' fs'. nativeEs m' = Inr es' \<and> folded m' = Inr fs'
              \<and> length es' = gpm_n m \<and> length fs' = gpm_n m
              \<and> (\<forall>i < gpm_n m. \<forall>j k.
                    j < k \<and> k < length cl
                    \<and> fe (genotypes m ! i) (cl ! j) (interaction_energies m) =
                        Min ((\<lambda>c. fe (genotypes m ! i) c (interaction_energies m)) ` set cl)
                    \<and> fe (genotypes m ! i) (cl ! k) (interaction_energies m) =
                        Min ((\<lambda>c. fe (genotypes m ! i) c (interaction_energies m)) ` set cl)
                    \<and> Min ((\<lambda>c. fe (genotypes m ! i) c (interaction_energies m)) ` set cl) \<le> 0
                    \<longrightarrow> fs' ! i = False
                      \<and> es' ! i = Min ((\<lambda>c. fe (genotypes m ! i) c (interaction_energies m)) ` set cl))"
    using props(2,3) len(2,3) tieall
    by (intro exI [of _ es'] exI [of _ fs'] conjI)
  show ?thesis
    by (rule exI [of _ m'], rule exI [of _ zs'], intro conjI impI)
       (rule run props(1) len(1) zall second)+
qed

text \<open>
  The example of the specification: one genotype, two conformations of energy \<open>- 2\<close> each,
  temperature one.
\<close>

theorem recalculate_partition_sum_tie_witness:
  "allocated (example_gpm [''AB'']) \<and> target_conf (example_gpm [''AB'']) = None
   \<and> temperature (example_gpm [''AB'']) = 1
   \<and> (\<exists>m'. recalculate_partition_sum (\<lambda>g c t. - 2) (example_gpm [''AB'']) [''U'', ''R''] = Inr m'
        \<and> partition_sum m' = Inr [exp 2 + exp 2]
        \<and> nativeEs m' = Inr [- 2]
        \<and> folded m' = Inr [False])"
proof -
  let ?m = "example_gpm [''AB'']"
  let ?fe = "\<lambda>(g::string) (c::string) (t::unit). (- 2::real)"
  let ?cl = "[''U'', ''R'']"
  have tc: "target_conf ?m = None" and T1: "temperature ?m = 1" and n: "gpm_n ?m = Suc 0"
    by (simp_all add: example_gpm_def gpm_n_def)
  have T: "temperature ?m \<noteq> 0" using T1 by simp
  have first: "target_conf ?m = None \<longrightarrow>
      (\<exists>c \<in> set ?cl. ?fe (genotypes ?m ! 0) c (interaction_energies ?m) \<le> 0)"
    by auto
  have min: "Min ((\<lambda>c. ?fe (genotypes ?m ! 0) c (interaction_energies ?m)) ` set ?cl) = - 2"
    by simp
  from recalculate_partition_sum_tie [where fe = ?fe and cl = ?cl, OF example_allocated T first] tc
  obtain m' zs' es' fs' where run: "recalculate_partition_sum ?fe ?m ?cl = Inr m'"
    and props: "partition_sum m' = Inr zs'" "nativeEs m' = Inr es'" "folded m' = Inr fs'"
    and len: "length zs' = gpm_n ?m" "length es' = gpm_n ?m" "length fs' = gpm_n ?m"
    and z: "\<forall>i < gpm_n ?m.
        zs' ! i = (\<Sum>c\<leftarrow>?cl. exp (- ?fe (genotypes ?m ! i) c (interaction_energies ?m) / temperature ?m))"
    and tie: "\<forall>i < gpm_n ?m. \<forall>j k.
            j < k \<and> k < length ?cl
            \<and> ?fe (genotypes ?m ! i) (?cl ! j) (interaction_energies ?m) =
                Min ((\<lambda>c. ?fe (genotypes ?m ! i) c (interaction_energies ?m)) ` set ?cl)
            \<and> ?fe (genotypes ?m ! i) (?cl ! k) (interaction_energies ?m) =
                Min ((\<lambda>c. ?fe (genotypes ?m ! i) c (interaction_energies ?m)) ` set ?cl)
            \<and> Min ((\<lambda>c. ?fe (genotypes ?m ! i) c (interaction_energies ?m)) ` set ?cl) \<le> 0
            \<longrightarrow> fs' ! i = False
              \<and> es' ! i = Min ((\<lambda>c. ?fe (genotypes ?m ! i) c (interaction_energies ?m)) ` set ?cl)"
    by blast
  have z0: "zs' ! 0 = exp 2 + exp 2" using z n T1 by simp
  have "fs' ! 0 = False \<and> es' ! 0 = - 2"
    using tie [rule_format, of 0 0 1] n by simp
  then have f0: "fs' ! 0 = False" and e0: "es' ! 0 = - 2" by simp_all
  have "zs' = [exp 2 + exp 2]" "es' = [- 2]" "fs' = [False]"
    using singleton_nth [of zs'] singleton_nth [of es'] singleton_nth [of fs'] len n z0 e0 f0
    by simp_all
  then show ?thesis
    using run props example_allocated [of "[''AB'']"] tc T1 by blast
qed

text \<open>
  The claim as stated, for every minimum and every map, fails. A second genotype whose two
  conformations share the energy one, scored after a genotype with a single lowest
  conformation, keeps the value \<open>True\<close> that \<^verbatim>\<open>folded\<close> had, and zero is stored as its
  native energy. And with a target conformation set the pass writes no folded flag at all:
  after \<^verbatim>\<open>fold\<close>, a genotype with two conformations of energy \<open>- 2\<close> has the flag
  that the fresh array happened to hold.
\<close>

theorem recalculate_partition_sum_tie_counterexample:
  "(\<exists>m'. recalculate_partition_sum
           (\<lambda>g c t. if g = ''AB'' then (if c = ''U'' then - 1 else 5) else 1)
           (example_gpm [''AB'', ''CD'']) [''U'', ''R''] = Inr m'
      \<and> folded m' = Inr [True, True] \<and> nativeEs m' = Inr [- 1, 0]
      \<and> (\<lambda>g c t. if g = ''AB'' then (if c = ''U'' then - 1 else 5) else (1::real)) ''CD'' ''U'' () = 1
      \<and> (\<lambda>g c t. if g = ''AB'' then (if c = ''U'' then - 1 else 5) else (1::real)) ''CD'' ''R'' () = 1)
   \<and> (\<exists>m'. fold_gpm (\<lambda>g c t. - 2)
           \<lparr>junk_nativeEs = (\<lambda>i. 0), junk_confs = (\<lambda>i. []),
            junk_partition_sum = (\<lambda>i. 0), junk_folded = (\<lambda>i. True)\<rparr>
           ((example_gpm [''AB''])\<lparr>target_conf := Some ''R''\<rparr>) (Some [''U'', ''R'']) None = Inr m'
      \<and> partition_sum m' = Inr [exp 2 + exp 2] \<and> folded m' = Inr [True])"
  by (simp add: recalculate_partition_sum_def example_gpm_def gpm_n_def gpm_length_def
        score_genotype_def score_conf_def Let_def nativeEs_def folded_def partition_sum_def
        fold_gpm_def unicode_width_def np_empty_def set_target_conf_def confs_def)

section \<open>The interaction table of a constructed map\<close>

lemma init_gpm_interaction_energies:
  "init_gpm miyazawa_jernigan mutations_to_genotypes wt mu tc T pt table = Inr m \<Longrightarrow>
     interaction_energies m = miyazawa_jernigan"
  by (auto simp: init_gpm_def split: if_splits)

text \<open>
  Claim C8 says that the interaction table given to the constructor is the one used in every
  later energy call. Here the table is a single number, the energy of every conformation,
  and \<open>fold_energy\<close> returns it. A map built with the table \<open>- 5\<close>, where the module's
  \<^verbatim>\<open>miyazawa_jernigan\<close> is \<open>- 1\<close>, holds \<open>- 1\<close> as its table, and both scoring against
  a list of conformations and setting a target conformation store the energy \<open>- 1\<close>.
\<close>

theorem init_gpm_ignores_interaction_energies:
  "\<exists>m m' m''.
      init_gpm (- 1) (\<lambda>w mu. [w]) ''AB'' () None 1 ''nativeEs'' (- 5) = Inr m
    \<and> interaction_energies m = (- 1 :: real)
    \<and> fold_gpm (\<lambda>g c t. t)
        \<lparr>junk_nativeEs = (\<lambda>i. 0), junk_confs = (\<lambda>i. []),
         junk_partition_sum = (\<lambda>i. 0), junk_folded = (\<lambda>i. False)\<rparr>
        m (Some [''U'']) None = Inr m'
    \<and> nativeEs m' = Inr [- 1]
    \<and> set_target_conf (\<lambda>g c t. t) m' ''R'' = Inr m''
    \<and> nativeEs m'' = Inr [- 1]"
  by (simp add: init_gpm_def types_def fold_gpm_def unicode_width_def np_empty_def gpm_n_def gpm_length_def
        recalculate_partition_sum_def score_genotype_def score_conf_def Let_def
        set_target_conf_def confs_def nativeEs_def)

section \<open>Writing a map and reading it back\<close>





text \<open>
  When the constructor of \<^verbatim>\<open>BinaryMap\<close> raises on the object read back, so does
  \<^verbatim>\<open>from_json\<close>, with the same exception.
\<close>

lemma from_json_binary_map_raises:
  assumes "load_attrs data kwargs = Inr obj" and "build_attrs obj ''wildtype'' = Some w"
    and "BinaryMap (build_attrs obj) w = Inl e"
  shows "from_json BinaryMap data kwargs = Inl e"
  using assms by (simp add: from_json_def build_object_def getattr_def Let_def)




end
